theory Spec2Isabelle
  imports Complex_Main
begin

section \<open>Arrays, errors and the library calls the detectors make\<close>

text \<open>
  The two detectors of \<^verbatim>\<open>kenchi/outlier_detection\<close> are thin classes over numpy, scipy
  and scikit-learn. A numpy vector is a list of reals and a matrix a list of rows; Python
  floats are read as real numbers, so rounding is outside this development, and the
  values \<^verbatim>\<open>inf\<close> and \<^verbatim>\<open>nan\<close> appear only where the score of the mixture detector is taken
  with numpy's logarithm. An exception is a value \<open>Inl e\<close> of a sum type. A Python attribute
  with a trailing underscore (\<^verbatim>\<open>threshold_\<close>) is written with a prime, since a name may not end
  in an underscore here; an attribute that has not been assigned yet is \<open>None\<close>.
\<close>

type_synonym vec = "real list"
type_synonym mat = "real list list"

text \<open>
  \<^verbatim>\<open>ValueError\<close> is what the spec calls InvalidParameter and InvalidInput,
  \<^verbatim>\<open>NotFittedError\<close> (scikit-learn) is its NotFitted, and \<^verbatim>\<open>AttributeError\<close> is what Python
  raises when an attribute that was never assigned is read.
\<close>

datatype error = ValueError | NotFittedError | AttributeError

text \<open>
  \<^verbatim>\<open>sklearn.utils.check_array\<close> with its defaults: the input must be two-dimensional
  (every row as long as the first), with at least one sample and one feature. The array
  it returns holds the same numbers.
\<close>

definition check_array :: "mat \<Rightarrow> error + mat" where
  "check_array X =
     (if X = [] then Inl ValueError
      else if hd X = [] then Inl ValueError
      else if \<not> list_all (\<lambda>r. length r = length (hd X)) X then Inl ValueError
      else Inr X)"

text \<open>
  \<^verbatim>\<open>sklearn.utils.validation.check_is_fitted(self, attributes)\<close>: each entry of the list
  says whether the estimator has that attribute; all of them must be there.
\<close>

definition check_is_fitted :: "bool list \<Rightarrow> error + unit" where
  "check_is_fitted present = (if list_all id present then Inr () else Inl NotFittedError)"

text \<open>
  \<^verbatim>\<open>np.percentile(a, q)\<close> with the default linear interpolation: a percentile outside
  \<open>[0, 100]\<close> is refused with ValueError before anything is computed; otherwise the value
  at the fractional position \<open>q / 100 * (n - 1)\<close> of the sorted data, interpolated linearly
  between the two neighbouring order statistics. On an empty array numpy returns
  \<^verbatim>\<open>nan\<close>; no \<^verbatim>\<open>fit\<close> reaches that case (\<open>check_array\<close> refuses an empty input), and it is
  an error here.
\<close>

definition np_percentile :: "vec \<Rightarrow> real \<Rightarrow> error + real" where
  "np_percentile a q =
     (if q < 0 \<or> 100 < q then Inl ValueError
      else if a = [] then Inl ValueError
      else
        let s = sort a;
            pos = q / 100 * real (length s - 1);
            lo = nat \<lfloor>pos\<rfloor>;
            hi = min (lo + 1) (length s - 1)
        in Inr (s ! lo + (pos - real lo) * (s ! hi - s ! lo)))"

text \<open>numpy arithmetic on arrays of equal shape, and sums along an axis.\<close>

definition vec_sub :: "vec \<Rightarrow> vec \<Rightarrow> vec" where
  "vec_sub u v = map2 (-) u v"

definition mat_sub :: "mat \<Rightarrow> mat \<Rightarrow> mat" where
  "mat_sub A B = map2 vec_sub A B"

definition mat_square :: "mat \<Rightarrow> mat" where
  "mat_square A = map (map (\<lambda>a. a\<^sup>2)) A"

definition np_sum_axis1 :: "mat \<Rightarrow> vec" where
  "np_sum_axis1 A = map sum_list A"

text \<open>
  \<^verbatim>\<open>np.sum(rows, axis=0)\<close> of a list of vectors of length \<open>n\<close>: entry \<open>i\<close> is the sum of the
  \<open>i\<close>-th entries.
\<close>

definition np_sum_axis0 :: "nat \<Rightarrow> mat \<Rightarrow> vec" where
  "np_sum_axis0 n rows = map (\<lambda>i. sum_list (map (\<lambda>r. r ! i) rows)) [0..<n]"

definition dot :: "vec \<Rightarrow> vec \<Rightarrow> real" where
  "dot u v = sum_list (map2 (*) u v)"

text \<open>The Euclidean norm of a vector, as the spec words the reconstruction error.\<close>

definition euclidean_norm :: "vec \<Rightarrow> real" where
  "euclidean_norm v = sqrt (sum_list (map (\<lambda>a. a\<^sup>2) v))"

section \<open>The Gaussian mixture detector (mixture\_distns.py)\<close>

text \<open>
  \<^verbatim>\<open>GaussianMixtureOutlierDetector\<close> inherits from scikit-learn's \<^verbatim>\<open>GaussianMixture\<close>: the
  object holds the hyperparameters of \<^verbatim>\<open>__init__\<close>, the attributes the inherited \<^verbatim>\<open>fit\<close>
  assigns, and \<^verbatim>\<open>threshold_\<close>.
\<close>

record gm_detector =
  gm_fpr :: real
  max_iter :: int
  means_init :: "mat option"
  n_components :: int
  precisions_init :: "mat list option"
  random_state :: "int option"
  tol :: real
  weights_init :: "vec option"
  weights' :: "vec option"
  means' :: "mat option"
  covariances' :: "mat list option"
  precisions' :: "mat list option"
  gm_threshold' :: "real option"

text \<open>
  \<^verbatim>\<open>__init__\<close> (lines 58-75) stores its arguments and checks none of them; the inherited
  constructor checks nothing either.
\<close>

definition gmm_init ::
  "real \<Rightarrow> int \<Rightarrow> mat option \<Rightarrow> int \<Rightarrow> mat list option \<Rightarrow> int option \<Rightarrow> real \<Rightarrow> vec option
     \<Rightarrow> gm_detector" where
  "gmm_init f mi m0 k p0 rs t w0 =
     \<lparr>gm_fpr = f, max_iter = mi, means_init = m0, n_components = k, precisions_init = p0,
      random_state = rs, tol = t, weights_init = w0,
      weights' = None, means' = None, covariances' = None, precisions' = None,
      gm_threshold' = None\<rparr>"

text \<open>
  What the expectation-maximisation of \<^verbatim>\<open>GaussianMixture.fit\<close> estimates. The estimation
  itself is scikit-learn's: it is a parameter \<open>em\<close> of the model, a function of the
  detector's hyperparameters and the training matrix that fails or returns the estimate.
\<close>

record mixture_estimate =
  est_weights :: vec
  est_means :: mat
  est_covariances :: "mat list"
  est_precisions :: "mat list"

text \<open>
  \<^verbatim>\<open>scipy.stats.multivariate_normal.pdf(X, mean, cov)\<close> evaluates the density at every row
  of \<open>X\<close>. The density at one sample is the parameter \<open>pdf\<close>.
\<close>

definition multivariate_normal_pdf ::
  "(vec \<Rightarrow> vec \<Rightarrow> mat \<Rightarrow> real) \<Rightarrow> mat \<Rightarrow> vec \<Rightarrow> mat \<Rightarrow> vec" where
  "multivariate_normal_pdf pdf X mean cov = map (\<lambda>x. pdf x mean cov) X"

text \<open>
  \<^verbatim>\<open>anomaly_score\<close> (lines 101-130). The decorators \<^verbatim>\<open>construct_pandas_obj\<close> and
  \<^verbatim>\<open>assign_info_on_pandas_obj\<close> of \<^verbatim>\<open>kenchi.utils\<close> concern pandas inputs and are not among
  the sources; on the arrays modelled here the value of a decorated method is taken to be
  the value of the method as written. What a call of the decorated \<^verbatim>\<open>anomaly_score\<close>
  leaves of the detector is the subject of the section on scoring calls, where the
  decorator is a parameter.
\<close>

definition gmm_anomaly_score ::
  "(vec \<Rightarrow> vec \<Rightarrow> mat \<Rightarrow> real) \<Rightarrow> gm_detector \<Rightarrow> mat \<Rightarrow> error + vec" where
  "gmm_anomaly_score pdf g X =
     (case check_is_fitted
             [weights' g \<noteq> None, means' g \<noteq> None, covariances' g \<noteq> None,
              precisions' g \<noteq> None] of
        Inl e \<Rightarrow> Inl e
      | Inr _ \<Rightarrow>
          (case check_array X of
             Inl e \<Rightarrow> Inl e
           | Inr A \<Rightarrow>
               Inr (map (\<lambda>s. - ln s)
                      (np_sum_axis0 (length A)
                         (map (\<lambda>(weight, mean, cov).
                                  map (\<lambda>p. weight * p) (multivariate_normal_pdf pdf A mean cov))
                              (zip (the (weights' g))
                                 (zip (the (means' g)) (the (covariances' g)))))))))"

text \<open>
  numpy's float64 has, besides the finite numbers, the values \<^verbatim>\<open>inf\<close>, \<^verbatim>\<open>-inf\<close> and
  \<^verbatim>\<open>nan\<close>, and \<^verbatim>\<open>np.log\<close> returns \<^verbatim>\<open>-inf\<close> at 0 and \<^verbatim>\<open>nan\<close> below 0, with a warning and
  without an exception.
\<close>

datatype npfloat = Finite real | PosInf | NegInf | NaN

definition np_log :: "real \<Rightarrow> npfloat" where
  "np_log x = (if 0 < x then Finite (ln x) else if x = 0 then NegInf else NaN)"

fun np_negative :: "npfloat \<Rightarrow> npfloat" where
  "np_negative (Finite x) = Finite (- x)"
| "np_negative PosInf = NegInf"
| "np_negative NegInf = PosInf"
| "np_negative NaN = NaN"

text \<open>
  \<open>gmm_anomaly_score\<close> reads the scores as real numbers, which is what they are where
  every weighted sum of densities is positive. \<open>gmm_anomaly_score_np\<close> is the same method
  (lines 101-130) with its last step, \<^verbatim>\<open>-np.log(...)\<close>, taken in numpy's values, so that a
  sum of 0 is in its domain: that is the sum of the double-precision densities once
  every one of them has underflowed.
\<close>

definition gmm_anomaly_score_np ::
  "(vec \<Rightarrow> vec \<Rightarrow> mat \<Rightarrow> real) \<Rightarrow> gm_detector \<Rightarrow> mat \<Rightarrow> error + npfloat list" where
  "gmm_anomaly_score_np pdf g X =
     (case check_is_fitted
             [weights' g \<noteq> None, means' g \<noteq> None, covariances' g \<noteq> None,
              precisions' g \<noteq> None] of
        Inl e \<Rightarrow> Inl e
      | Inr _ \<Rightarrow>
          (case check_array X of
             Inl e \<Rightarrow> Inl e
           | Inr A \<Rightarrow>
               Inr (map (\<lambda>s. np_negative (np_log s))
                      (np_sum_axis0 (length A)
                         (map (\<lambda>(weight, mean, cov).
                                  map (\<lambda>p. weight * p) (multivariate_normal_pdf pdf A mean cov))
                              (zip (the (weights' g))
                                 (zip (the (means' g)) (the (covariances' g)))))))))"

text \<open>
  \<^verbatim>\<open>fit\<close> (lines 77-99). The method mutates the object and may raise after it has done so:
  it returns the object as the call leaves it, with the exception or \<open>Inr ()\<close> for the
  normal return. The argument of the percentile is computed in real arithmetic; the
  rounding of \<^verbatim>\<open>100.0 * (1.0 - self.fpr)\<close> in double precision is not modelled.
\<close>

definition gmm_fit ::
  "(gm_detector \<Rightarrow> mat \<Rightarrow> error + mixture_estimate) \<Rightarrow> (vec \<Rightarrow> vec \<Rightarrow> mat \<Rightarrow> real)
     \<Rightarrow> gm_detector \<Rightarrow> mat \<Rightarrow> gm_detector \<times> (error + unit)" where
  "gmm_fit em pdf g X =
     (case check_array X of
        Inl e \<Rightarrow> (g, Inl e)
      | Inr A \<Rightarrow>
          (case em g A of
             Inl e \<Rightarrow> (g, Inl e)
           | Inr est \<Rightarrow>
               let g1 = g\<lparr>weights' := Some (est_weights est), means' := Some (est_means est),
                          covariances' := Some (est_covariances est),
                          precisions' := Some (est_precisions est)\<rparr>
               in (case gmm_anomaly_score pdf g1 A of
                     Inl e \<Rightarrow> (g1, Inl e)
                   | Inr scores \<Rightarrow>
                       (case np_percentile scores (100 * (1 - gm_fpr g1)) of
                          Inl e \<Rightarrow> (g1, Inl e)
                        | Inr t \<Rightarrow> (g1\<lparr>gm_threshold' := Some t\<rparr>, Inr ())))))"

section \<open>The reconstruction detector (reconstruction\_based.py)\<close>

text \<open>
  The attributes \<^verbatim>\<open>decomposition.PCA.fit\<close> assigns. The decomposition is scikit-learn's:
  it is a parameter \<open>svd\<close> of the model, a function of the estimator's keyword arguments
  and the training matrix that fails or returns these attributes.
\<close>

record pca_params =
  components' :: mat
  explained_variance' :: vec
  explained_variance_ratio' :: vec
  mean' :: vec
  noise_variance' :: real
  n_components' :: nat
  singular_values' :: vec

text \<open>
  The wrapped estimator \<^verbatim>\<open>self._pca = decomposition.PCA(**kwargs)\<close>: of the keyword
  arguments, the number of components asked for (read by the decomposition) and
  \<^verbatim>\<open>whiten\<close> (read by the transformation); and the fitted attributes once \<^verbatim>\<open>fit\<close> has
  assigned them.
\<close>

record sk_pca =
  pca_n_components :: "nat option"
  whiten :: bool
  fitted :: "pca_params option"

record pca_detector =
  pca_fpr :: real
  pca :: sk_pca
  X' :: "mat option"
  pca_threshold' :: "real option"

text \<open>
  \<^verbatim>\<open>decomposition.PCA.fit\<close>: the attributes are assigned when the decomposition succeeds.
\<close>

definition sk_fit ::
  "(sk_pca \<Rightarrow> mat \<Rightarrow> error + pca_params) \<Rightarrow> sk_pca \<Rightarrow> mat \<Rightarrow> sk_pca \<times> (error + unit)" where
  "sk_fit svd p X =
     (case svd p X of
        Inl e \<Rightarrow> (p, Inl e)
      | Inr ps \<Rightarrow> (p\<lparr>fitted := Some ps\<rparr>, Inr ()))"

text \<open>
  \<^verbatim>\<open>decomposition.PCA.transform\<close>: \<^verbatim>\<open>check_is_fitted\<close>, then \<^verbatim>\<open>check_array\<close>, then
  \<^verbatim>\<open>np.dot(X - mean_, components_.T)\<close>, divided by \<^verbatim>\<open>sqrt(explained_variance_)\<close> when
  \<^verbatim>\<open>whiten\<close> is set. An input with another number of features than the training matrix
  is refused with ValueError. The product is taken row by row: \<open>transform_row\<close> is what
  it does to one sample.
\<close>

definition transform_row :: "sk_pca \<Rightarrow> pca_params \<Rightarrow> vec \<Rightarrow> vec" where
  "transform_row p ps x =
     (let z = map (\<lambda>c. dot (vec_sub x (mean' ps)) c) (components' ps)
      in if whiten p then map2 (\<lambda>a v. a / sqrt v) z (explained_variance' ps) else z)"

definition sk_transform :: "sk_pca \<Rightarrow> mat \<Rightarrow> error + mat" where
  "sk_transform p X =
     (case fitted p of
        None \<Rightarrow> Inl NotFittedError
      | Some ps \<Rightarrow>
          (case check_array X of
             Inl e \<Rightarrow> Inl e
           | Inr A \<Rightarrow>
               if length (hd A) \<noteq> length (mean' ps) then Inl ValueError
               else Inr (map (transform_row p ps) A)))"

text \<open>
  \<^verbatim>\<open>decomposition.PCA.inverse_transform\<close>: \<^verbatim>\<open>np.dot(Z, components_) + mean_\<close>, the rows of
  \<^verbatim>\<open>components_\<close> scaled by \<^verbatim>\<open>sqrt(explained_variance_)\<close> when \<^verbatim>\<open>whiten\<close> is set. It reads
  the fitted attributes without a check of its own. \<open>inverse_row\<close> is what it does to one
  row of coordinates.
\<close>

definition inverse_row :: "sk_pca \<Rightarrow> pca_params \<Rightarrow> vec \<Rightarrow> vec" where
  "inverse_row p ps z =
     (let C = (if whiten p
               then map2 (\<lambda>v c. map (\<lambda>a. sqrt v * a) c) (explained_variance' ps)
                      (components' ps)
               else components' ps)
      in map (\<lambda>j. sum_list (map2 (\<lambda>a c. a * c ! j) z C) + mean' ps ! j)
           [0..<length (mean' ps)])"

definition sk_inverse_transform :: "sk_pca \<Rightarrow> mat \<Rightarrow> error + mat" where
  "sk_inverse_transform p Z =
     (case fitted p of
        None \<Rightarrow> Inl AttributeError
      | Some ps \<Rightarrow> Inr (map (inverse_row p ps) Z))"

text \<open>
  \<^verbatim>\<open>decomposition.PCA.score\<close>: the mean over the samples of the log-likelihood under the
  probabilistic PCA model. The log-likelihood of one sample is the parameter \<open>loglik\<close>.
\<close>

definition sk_score :: "(pca_params \<Rightarrow> vec \<Rightarrow> real) \<Rightarrow> sk_pca \<Rightarrow> mat \<Rightarrow> error + real" where
  "sk_score loglik p X =
     (case fitted p of
        None \<Rightarrow> Inl NotFittedError
      | Some ps \<Rightarrow>
          (case check_array X of
             Inl e \<Rightarrow> Inl e
           | Inr A \<Rightarrow>
               if length (hd A) \<noteq> length (mean' ps) then Inl ValueError
               else Inr (sum_list (map (loglik ps) A) / real (length A))))"

text \<open>\<^verbatim>\<open>check_params\<close> (lines 87-93).\<close>

definition PCA_check_params :: "pca_detector \<Rightarrow> error + unit" where
  "PCA_check_params d = (if pca_fpr d < 0 \<or> pca_fpr d > 1 then Inl ValueError else Inr ())"

text \<open>
  \<^verbatim>\<open>__init__\<close> (lines 81-85): an exception of \<^verbatim>\<open>check_params\<close> leaves no object.
\<close>

definition PCA_init :: "real \<Rightarrow> nat option \<Rightarrow> bool \<Rightarrow> error + pca_detector" where
  "PCA_init f k w =
     (let d = \<lparr>pca_fpr = f,
               pca = \<lparr>pca_n_components = k, whiten = w, fitted = None\<rparr>,
               X' = None, pca_threshold' = None\<rparr>
      in case PCA_check_params d of Inl e \<Rightarrow> Inl e | Inr _ \<Rightarrow> Inr d)"

text \<open>\<^verbatim>\<open>reconstruct\<close> (lines 120-134).\<close>

definition PCA_reconstruct :: "pca_detector \<Rightarrow> mat \<Rightarrow> error + mat" where
  "PCA_reconstruct d X =
     (case sk_transform (pca d) X of
        Inl e \<Rightarrow> Inl e
      | Inr Z \<Rightarrow> sk_inverse_transform (pca d) Z)"

text \<open>
  \<^verbatim>\<open>anomaly_score\<close> (lines 136-153). With \<^verbatim>\<open>X=None\<close> the method reads \<^verbatim>\<open>self.X_\<close>, which
  exists only once \<^verbatim>\<open>fit\<close> has assigned it.
\<close>

definition PCA_anomaly_score :: "pca_detector \<Rightarrow> mat option \<Rightarrow> error + vec" where
  "PCA_anomaly_score d Xo =
     (case (case Xo of
              None \<Rightarrow> (case X' d of None \<Rightarrow> Inl AttributeError | Some A \<Rightarrow> Inr A)
            | Some X \<Rightarrow> Inr X) of
        Inl e \<Rightarrow> Inl e
      | Inr X \<Rightarrow>
          (case PCA_reconstruct d X of
             Inl e \<Rightarrow> Inl e
           | Inr R \<Rightarrow> Inr (map sqrt (np_sum_axis1 (mat_square (mat_sub X R))))))"

text \<open>\<^verbatim>\<open>score\<close> (lines 155-171).\<close>

definition PCA_score :: "(pca_params \<Rightarrow> vec \<Rightarrow> real) \<Rightarrow> pca_detector \<Rightarrow> mat \<Rightarrow> error + real" where
  "PCA_score loglik d X = sk_score loglik (pca d) X"

text \<open>
  \<^verbatim>\<open>fit\<close> (lines 95-118). As for the mixture detector, the result is the object as the
  call leaves it together with the exception or the normal return.
\<close>

definition PCA_fit ::
  "(sk_pca \<Rightarrow> mat \<Rightarrow> error + pca_params) \<Rightarrow> pca_detector \<Rightarrow> mat
     \<Rightarrow> pca_detector \<times> (error + unit)" where
  "PCA_fit svd d X =
     (case check_array X of
        Inl e \<Rightarrow> (d, Inl e)
      | Inr A \<Rightarrow>
          let d1 = d\<lparr>X' := Some A\<rparr> in
          (case sk_fit svd (pca d1) A of
             (p, Inl e) \<Rightarrow> (d1\<lparr>pca := p\<rparr>, Inl e)
           | (p, Inr _) \<Rightarrow>
               let d2 = d1\<lparr>pca := p\<rparr> in
               (case PCA_anomaly_score d2 None of
                  Inl e \<Rightarrow> (d2, Inl e)
                | Inr anomaly_score \<Rightarrow>
                    (case np_percentile anomaly_score (100 * (1 - pca_fpr d2)) of
                       Inl e \<Rightarrow> (d2, Inl e)
                     | Inr t \<Rightarrow> (d2\<lparr>pca_threshold' := Some t\<rparr>, Inr ())))))"

section \<open>What a scoring call leaves\<close>

text \<open>
  The bodies of \<^verbatim>\<open>anomaly_score\<close>, \<^verbatim>\<open>score\<close> and \<^verbatim>\<open>reconstruct\<close> assign to the local name
  \<^verbatim>\<open>X\<close> only, but they hand the detector, and arrays the detector holds, to library code,
  and Python passes objects by reference: \<^verbatim>\<open>check_is_fitted\<close> receives \<^verbatim>\<open>self\<close>;
  \<^verbatim>\<open>multivariate_normal.pdf\<close> receives the rows of \<^verbatim>\<open>self.means_\<close> and
  \<^verbatim>\<open>self.covariances_\<close>; \<^verbatim>\<open>transform\<close>, \<^verbatim>\<open>inverse_transform\<close> and \<^verbatim>\<open>score\<close> are methods
  of \<^verbatim>\<open>self._pca\<close>; and with \<^verbatim>\<open>X=None\<close> the array that \<^verbatim>\<open>transform\<close> receives is
  \<^verbatim>\<open>self.X_\<close> itself. What each of these calls leaves of the objects it is handed is a
  parameter of the model, as is the decorator \<^verbatim>\<open>construct_pandas_obj\<close> of
  \<^verbatim>\<open>kenchi.utils\<close>, which wraps \<^verbatim>\<open>anomaly_score\<close> of the mixture detector and is not
  among the sources. What the calls return is as modelled above.
\<close>

record effects =
  on_check_is_fitted :: "gm_detector \<Rightarrow> gm_detector"
  on_pdf :: "mat \<Rightarrow> vec \<Rightarrow> mat \<Rightarrow> vec \<times> mat"
  construct_pandas_obj ::
    "(gm_detector \<Rightarrow> mat \<Rightarrow> gm_detector \<times> (error + vec))
       \<Rightarrow> gm_detector \<Rightarrow> mat \<Rightarrow> gm_detector \<times> (error + vec)"
  on_transform :: "sk_pca \<Rightarrow> mat \<Rightarrow> sk_pca \<times> mat"
  on_inverse_transform :: "sk_pca \<Rightarrow> mat \<Rightarrow> sk_pca"
  on_score :: "sk_pca \<Rightarrow> mat \<Rightarrow> sk_pca"




text \<open>
  The methods of the reconstruction detector. \<^verbatim>\<open>reconstruct\<close> (line 134) also gives the
  array it was handed, as the call leaves it: \<^verbatim>\<open>anomaly_score\<close> (lines 150-153) reads
  that array after \<^verbatim>\<open>reconstruct\<close> has returned, and with \<^verbatim>\<open>X=None\<close> the array is the
  stored training matrix.
\<close>

definition PCA_reconstruct_method ::
  "effects \<Rightarrow> pca_detector \<Rightarrow> mat \<Rightarrow> pca_detector \<times> mat \<times> (error + mat)" where
  "PCA_reconstruct_method E d X =
     (case on_transform E (pca d) X of
        (p1, X1) \<Rightarrow>
          (case sk_transform (pca d) X of
             Inl e \<Rightarrow> (d\<lparr>pca := p1\<rparr>, X1, Inl e)
           | Inr Z \<Rightarrow>
               (d\<lparr>pca := on_inverse_transform E p1 Z\<rparr>, X1, sk_inverse_transform p1 Z)))"

definition PCA_anomaly_score_method ::
  "effects \<Rightarrow> pca_detector \<Rightarrow> mat option \<Rightarrow> pca_detector \<times> (error + vec)" where
  "PCA_anomaly_score_method E d Xo =
     (case Xo of
        None \<Rightarrow>
          (case X' d of
             None \<Rightarrow> (d, Inl AttributeError)
           | Some A \<Rightarrow>
               (case PCA_reconstruct_method E d A of
                  (d1, A1, r) \<Rightarrow>
                    (d1\<lparr>X' := Some A1\<rparr>,
                     case r of
                       Inl e \<Rightarrow> Inl e
                     | Inr R \<Rightarrow> Inr (map sqrt (np_sum_axis1 (mat_square (mat_sub A1 R)))))))
      | Some X \<Rightarrow>
          (case PCA_reconstruct_method E d X of
             (d1, X1, r) \<Rightarrow>
               (d1,
                case r of
                  Inl e \<Rightarrow> Inl e
                | Inr R \<Rightarrow> Inr (map sqrt (np_sum_axis1 (mat_square (mat_sub X1 R)))))))"









section \<open>What the decomposition returns\<close>

text \<open>
  The fitted attributes have the shapes scikit-learn gives them: every principal axis has
  one entry per feature, and there is one explained variance per axis.
\<close>

definition shaped :: "pca_params \<Rightarrow> bool" where
  "shaped ps =
     (list_all (\<lambda>c. length c = length (mean' ps)) (components' ps) \<and>
      length (explained_variance' ps) = length (components' ps))"

text \<open>
  The factor by which \<^verbatim>\<open>transform\<close> divides the coordinate on axis \<open>k\<close>, and by which
  \<^verbatim>\<open>inverse_transform\<close> multiplies the axis.
\<close>

definition scale :: "sk_pca \<Rightarrow> pca_params \<Rightarrow> nat \<Rightarrow> real" where
  "scale p ps k = (if whiten p then sqrt (explained_variance' ps ! k) else 1)"

text \<open>
  A decomposition that retains all components loses nothing of the training matrix: the
  axes are orthonormal, and the centred training matrix is the product of a coordinate
  matrix \<open>U\<close> (one row per sample, one column per axis) with the axes. This is the
  singular value decomposition \<^verbatim>\<open>X - mean_ = (U * S) . components_\<close> that
  \<^verbatim>\<open>decomposition.PCA.fit\<close> computes, without truncation. With \<^verbatim>\<open>whiten\<close> the
  transformation divides by the square roots of the explained variances, which then have
  to be positive.
\<close>

definition retains_all :: "sk_pca \<Rightarrow> pca_params \<Rightarrow> mat \<Rightarrow> mat \<Rightarrow> bool" where
  "retains_all p ps X U =
     (shaped ps \<and>
      (whiten p \<longrightarrow> list_all (\<lambda>v. 0 < v) (explained_variance' ps)) \<and>
      list_all (\<lambda>k. list_all (\<lambda>l. dot (components' ps ! k) (components' ps ! l) =
                                    (if k = l then 1 else 0))
                          [0..<length (components' ps)])
               [0..<length (components' ps)] \<and>
      length U = length X \<and>
      list_all (\<lambda>i. length (U ! i) = length (components' ps) \<and>
                     list_all (\<lambda>j. X ! i ! j - mean' ps ! j =
                                      sum_list (map2 (\<lambda>a c. a * c ! j) (U ! i) (components' ps)))
                              [0..<length (mean' ps)])
               [0..<length X])"

section \<open>Samples\<close>

text \<open>
  Concrete instances of the library parameters, on which the model is evaluated. For the
  mixture detector: the estimate of one Gaussian component in one dimension, which is
  the sample mean and the sample variance (the fixed point of expectation-maximisation
  for a single component) plus \<^verbatim>\<open>reg_covar\<close>, the \<open>10\<^sup>-\<^sup>6\<close> that scikit-learn adds to the
  variance and that the detector's \<^verbatim>\<open>__init__\<close> leaves at its default; the univariate
  normal density; and the detector with the defaults of \<^verbatim>\<open>__init__\<close>. scikit-learn
  refuses a number of components below one.
\<close>

definition em_1d :: "gm_detector \<Rightarrow> mat \<Rightarrow> error + mixture_estimate" where
  "em_1d g A =
     (if n_components g \<noteq> 1 \<or> A = [] \<or> \<not> list_all (\<lambda>r. length r = 1) A then Inl ValueError
      else
        let xs = map hd A;
            m = sum_list xs / real (length xs);
            v = sum_list (map (\<lambda>x. (x - m)\<^sup>2) xs) / real (length xs) + 1 / 1000000
        in Inr \<lparr>est_weights = [1], est_means = [[m]], est_covariances = [[[v]]],
                est_precisions = [[[1 / v]]]\<rparr>)"

definition normal_pdf_1d :: "vec \<Rightarrow> vec \<Rightarrow> mat \<Rightarrow> real" where
  "normal_pdf_1d x mean cov =
     exp (- (hd x - hd mean)\<^sup>2 / (2 * hd (hd cov))) / sqrt (2 * pi * hd (hd cov))"

definition gm_default :: "real \<Rightarrow> gm_detector" where
  "gm_default f = gmm_init f 100 None 1 None None (1 / 1000) None"

definition X_line :: mat where
  "X_line = [[-1], [1]]"

text \<open>
  What that estimate is for the two samples \<open>-1\<close> and \<open>1\<close>, the detector after the
  estimation, and the score it gives to either sample.
\<close>

definition line_estimate :: mixture_estimate where
  "line_estimate =
     \<lparr>est_weights = [1], est_means = [[0]], est_covariances = [[[1000001 / 1000000]]],
      est_precisions = [[[1000000 / 1000001]]]\<rparr>"

definition gm_line :: "real \<Rightarrow> gm_detector" where
  "gm_line f =
     (gm_default f)\<lparr>weights' := Some [1], means' := Some [[0]],
                    covariances' := Some [[[1000001 / 1000000]]],
                    precisions' := Some [[[1000000 / 1000001]]]\<rparr>"

definition line_score :: real where
  "line_score = - ln (normal_pdf_1d [1] [0] [[1000001 / 1000000]])"

text \<open>
  The univariate normal density as double precision returns it, as far as underflow
  goes: a value below \<open>2\<^sup>-\<^sup>1\<^sup>0\<^sup>7\<^sup>5\<close>, half the least positive double, is rounded to 0.
\<close>

definition float_normal_pdf_1d :: "vec \<Rightarrow> vec \<Rightarrow> mat \<Rightarrow> real" where
  "float_normal_pdf_1d x mean cov =
     (if normal_pdf_1d x mean cov < 1 / 2 ^ 1075 then 0 else normal_pdf_1d x mean cov)"


text \<open>
  For the reconstruction detector: four points on the two coordinate axes, whose
  principal axes are the coordinate axes, with variances \<open>8/3\<close> and \<open>2/3\<close>. A request for
  more components than features is refused, as scikit-learn does.
\<close>

definition X_cross :: mat where
  "X_cross = [[-2, 0], [2, 0], [0, 1], [0, -1]]"

definition cross_params :: "nat \<Rightarrow> pca_params" where
  "cross_params k =
     \<lparr>components' = take k [[1, 0], [0, 1]],
      explained_variance' = take k [8 / 3, 2 / 3],
      explained_variance_ratio' = take k [4 / 5, 1 / 5],
      mean' = [0, 0],
      noise_variance' = (if k = 2 then 0 else if k = 1 then 2 / 3 else 5 / 3),
      n_components' = k,
      singular_values' = take k [sqrt 8, sqrt 2]\<rparr>"

definition svd_cross :: "sk_pca \<Rightarrow> mat \<Rightarrow> error + pca_params" where
  "svd_cross p A =
     (let k = (case pca_n_components p of None \<Rightarrow> 2 | Some k \<Rightarrow> k)
      in if 2 < k then Inl ValueError else Inr (cross_params k))"

definition pca_new :: "real \<Rightarrow> nat option \<Rightarrow> bool \<Rightarrow> pca_detector" where
  "pca_new f k w =
     \<lparr>pca_fpr = f, pca = \<lparr>pca_n_components = k, whiten = w, fitted = None\<rparr>,
      X' = None, pca_threshold' = None\<rparr>"

definition pca_cross :: "real \<Rightarrow> nat option \<Rightarrow> bool \<Rightarrow> nat \<Rightarrow> pca_detector" where
  "pca_cross f k w n =
     (pca_new f k w)\<lparr>X' := Some X_cross, pca := (pca (pca_new f k w))\<lparr>fitted := Some (cross_params n)\<rparr>\<rparr>"

text \<open>Library calls and a decorator that change nothing they are handed.\<close>

definition no_effects :: effects where
  "no_effects =
     \<lparr>on_check_is_fitted = (\<lambda>g. g), on_pdf = (\<lambda>A mean cov. (mean, cov)),
      construct_pandas_obj = (\<lambda>m. m), on_transform = (\<lambda>p X. (p, X)),
      on_inverse_transform = (\<lambda>p Z. p), on_score = (\<lambda>p X. p)\<rparr>"

text \<open>
  A \<^verbatim>\<open>transform\<close> that works in place on the array it is handed, here by subtracting 1
  from every entry, as a library written with \<^verbatim>\<open>X -= 1\<close> would.
\<close>

definition shifting_in_place :: effects where
  "shifting_in_place = no_effects\<lparr>on_transform := (\<lambda>p X. (p, map (map (\<lambda>a. a - 1)) X))\<rparr>"

section \<open>Facts about the library calls\<close>

lemma check_array_Inr: "check_array X = Inr A \<Longrightarrow> A = X"
  by (simp add: check_array_def split: if_splits)

lemma check_array_nonempty: "check_array X = Inr A \<Longrightarrow> X \<noteq> []"
  by (auto simp: check_array_def split: if_splits)

lemma check_array_row:
  assumes "check_array X = Inr A" and "i < length X"
  shows "length (X ! i) = length (hd X)"
  using assms by (auto simp: check_array_def list_all_length split: if_splits)

lemma np_percentile_range:
  "np_percentile a q = Inr t \<Longrightarrow> 0 \<le> q \<and> q \<le> 100"
  by (auto simp: np_percentile_def split: if_splits)

lemma np_percentile_Inr:
  "a \<noteq> [] \<Longrightarrow> 0 \<le> q \<Longrightarrow> q \<le> 100 \<Longrightarrow> \<exists>t. np_percentile a q = Inr t"
  by (simp add: np_percentile_def Let_def)

lemma np_percentile_out_of_range:
  "q < 0 \<or> 100 < q \<Longrightarrow> np_percentile a q = Inl ValueError"
  by (simp add: np_percentile_def)

text \<open>The percentiles 0 and 100 are the least and the greatest value.\<close>

lemma sorted_nth_0_Min:
  assumes "sorted s" and "s \<noteq> []"
  shows "s ! 0 = Min (set s)"
proof -
  have "\<forall>y\<in>set s. s ! 0 \<le> y"
    using assms by (metis in_set_conv_nth sorted_nth_mono le0)
  moreover have "s ! 0 \<in> set s" using assms by simp
  ultimately show ?thesis by (simp add: Min_eqI [symmetric])
qed

lemma sorted_nth_last_Max:
  assumes "sorted s" and "s \<noteq> []"
  shows "s ! (length s - 1) = Max (set s)"
proof -
  have "\<forall>y\<in>set s. y \<le> s ! (length s - 1)"
  proof
    fix y assume "y \<in> set s"
    then obtain i where "i < length s" "s ! i = y" by (auto simp: in_set_conv_nth)
    then show "y \<le> s ! (length s - 1)"
      using sorted_nth_mono [OF assms(1), of i "length s - 1"] by auto
  qed
  moreover have "s ! (length s - 1) \<in> set s" using assms by simp
  ultimately show ?thesis by (simp add: Max_eqI [symmetric])
qed

lemma np_percentile_0:
  assumes "a \<noteq> []"
  shows "np_percentile a 0 = Inr (Min (set a))"
proof -
  have "sort a \<noteq> []" using assms by (metis length_sort length_0_conv)
  then have "sort a ! 0 = Min (set (sort a))"
    by (simp add: sorted_nth_0_Min)
  then show ?thesis using assms by (simp add: np_percentile_def Let_def)
qed

lemma np_percentile_100:
  assumes "a \<noteq> []"
  shows "np_percentile a 100 = Inr (Max (set a))"
proof -
  have ne: "sort a \<noteq> []" using assms by (metis length_sort length_0_conv)
  then have "sort a ! (length (sort a) - 1) = Max (set (sort a))"
    by (rule sorted_nth_last_Max [OF sorted_sort])
  then show ?thesis using assms by (simp add: np_percentile_def Let_def)
qed

section \<open>What a successful fit leaves\<close>

lemma gmm_anomaly_score_threshold:
  "gmm_anomaly_score pdf (g\<lparr>gm_threshold' := t\<rparr>) X = gmm_anomaly_score pdf g X"
  by (simp add: gmm_anomaly_score_def cong: sum.case_cong)

lemma PCA_anomaly_score_threshold:
  "PCA_anomaly_score (d\<lparr>pca_threshold' := t\<rparr>) Xo = PCA_anomaly_score d Xo"
  by (simp add: PCA_anomaly_score_def PCA_reconstruct_def cong: sum.case_cong option.case_cong)

lemma PCA_anomaly_score_default:
  "X' d = Some A \<Longrightarrow> PCA_anomaly_score d None = PCA_anomaly_score d (Some A)"
  by (simp add: PCA_anomaly_score_def)

lemma gmm_fit_ok:
  assumes "gmm_fit em pdf g X = (g', Inr ())"
  shows "\<exists>est scores t. check_array X = Inr X \<and> em g X = Inr est
           \<and> g' = g\<lparr>weights' := Some (est_weights est), means' := Some (est_means est),
                      covariances' := Some (est_covariances est),
                      precisions' := Some (est_precisions est), gm_threshold' := Some t\<rparr>
           \<and> gmm_anomaly_score pdf g' X = Inr scores
           \<and> np_percentile scores (100 * (1 - gm_fpr g)) = Inr t"
  using assms
  by (auto simp: gmm_fit_def Let_def gmm_anomaly_score_threshold
           split: sum.splits dest!: check_array_Inr)

lemma PCA_fit_ok:
  assumes "PCA_fit svd d X = (d', Inr ())"
  shows "\<exists>ps scores t. check_array X = Inr X \<and> svd (pca d) X = Inr ps
           \<and> d' = d\<lparr>X' := Some X, pca := (pca d)\<lparr>fitted := Some ps\<rparr>,
                      pca_threshold' := Some t\<rparr>
           \<and> PCA_anomaly_score d' (Some X) = Inr scores
           \<and> np_percentile scores (100 * (1 - pca_fpr d)) = Inr t"
  using assms
  by (auto simp: PCA_fit_def sk_fit_def Let_def PCA_anomaly_score_threshold
                 PCA_anomaly_score_default
           split: sum.splits prod.splits dest!: check_array_Inr)

lemma gmm_fit_I:
  assumes "check_array X = Inr X" and "em g X = Inr est"
    and "gmm_anomaly_score pdf
           (g\<lparr>weights' := Some (est_weights est), means' := Some (est_means est),
              covariances' := Some (est_covariances est),
              precisions' := Some (est_precisions est)\<rparr>) X = Inr s"
    and "np_percentile s (100 * (1 - gm_fpr g)) = Inr t"
  shows "gmm_fit em pdf g X =
           (g\<lparr>weights' := Some (est_weights est), means' := Some (est_means est),
              covariances' := Some (est_covariances est),
              precisions' := Some (est_precisions est), gm_threshold' := Some t\<rparr>, Inr ())"
  using assms by (simp add: gmm_fit_def Let_def)

lemma gmm_fit_calibration_fails:
  assumes "check_array X = Inr X" and "em g X = Inr est"
    and "gmm_anomaly_score pdf
           (g\<lparr>weights' := Some (est_weights est), means' := Some (est_means est),
              covariances' := Some (est_covariances est),
              precisions' := Some (est_precisions est)\<rparr>) X = Inr s"
    and "np_percentile s (100 * (1 - gm_fpr g)) = Inl e"
  shows "gmm_fit em pdf g X =
           (g\<lparr>weights' := Some (est_weights est), means' := Some (est_means est),
              covariances' := Some (est_covariances est),
              precisions' := Some (est_precisions est)\<rparr>, Inl e)"
  using assms by (simp add: gmm_fit_def Let_def)

lemma PCA_fit_I:
  assumes "check_array X = Inr X" and "svd (pca d) X = Inr ps"
    and "PCA_anomaly_score (d\<lparr>X' := Some X, pca := (pca d)\<lparr>fitted := Some ps\<rparr>\<rparr>) None = Inr s"
    and "np_percentile s (100 * (1 - pca_fpr d)) = Inr t"
  shows "PCA_fit svd d X =
           (d\<lparr>X' := Some X, pca := (pca d)\<lparr>fitted := Some ps\<rparr>,
              pca_threshold' := Some t\<rparr>, Inr ())"
  using assms by (simp add: PCA_fit_def sk_fit_def Let_def)


section \<open>The samples evaluated\<close>

lemma check_array_line: "check_array X_line = Inr X_line"
  by (simp add: check_array_def X_line_def)

lemma em_1d_line: "em_1d (gm_default f) X_line = Inr line_estimate"
  by (simp add: em_1d_def gm_default_def gmm_init_def X_line_def line_estimate_def)

lemma gmm_scores_line:
  "gmm_anomaly_score normal_pdf_1d (gm_line f) X_line = Inr [line_score, line_score]"
  by (simp add: gmm_anomaly_score_def check_is_fitted_def check_array_line np_sum_axis0_def
        multivariate_normal_pdf_def gm_line_def)
     (simp add: X_line_def line_score_def normal_pdf_1d_def)

lemma gmm_scores_line_estimate:
  "gmm_anomaly_score normal_pdf_1d
     ((gm_default f)\<lparr>weights' := Some (est_weights line_estimate),
        means' := Some (est_means line_estimate),
        covariances' := Some (est_covariances line_estimate),
        precisions' := Some (est_precisions line_estimate)\<rparr>) X_line =
   Inr [line_score, line_score]"
  using gmm_scores_line [of f] by (simp add: gm_line_def line_estimate_def)

lemma gmm_fit_line:
  "gmm_fit em_1d normal_pdf_1d (gm_default (1 / 100)) X_line =
     ((gm_line (1 / 100))\<lparr>gm_threshold' := Some line_score\<rparr>, Inr ())"
proof -
  have p: "np_percentile [line_score, line_score]
             (100 * (1 - gm_fpr (gm_default (1 / 100)))) = Inr line_score"
    by (simp add: np_percentile_def gm_default_def gmm_init_def)
  show ?thesis
    using gmm_fit_I [where em = em_1d and g = "gm_default (1 / 100)",
                     OF check_array_line em_1d_line gmm_scores_line_estimate p]
    by (simp add: gm_line_def line_estimate_def)
qed

lemma gmm_fit_line_out_of_range:
  "gmm_fit em_1d normal_pdf_1d (gm_default (3 / 2)) X_line = (gm_line (3 / 2), Inl ValueError)"
proof -
  have p: "np_percentile [line_score, line_score]
             (100 * (1 - gm_fpr (gm_default (3 / 2)))) = Inl ValueError"
    by (simp add: np_percentile_def gm_default_def gmm_init_def)
  show ?thesis
    using gmm_fit_calibration_fails [where em = em_1d and g = "gm_default (3 / 2)",
                     OF check_array_line em_1d_line gmm_scores_line_estimate p]
    by (simp add: gm_line_def line_estimate_def)
qed

lemma check_array_cross: "check_array X_cross = Inr X_cross"
  by (simp add: check_array_def X_cross_def)

lemma svd_cross_1: "svd_cross (pca (pca_new f (Some (Suc 0)) w)) A = Inr (cross_params (Suc 0))"
  by (simp add: svd_cross_def pca_new_def)

lemma svd_cross_all: "svd_cross (pca (pca_new f None w)) A = Inr (cross_params 2)"
  by (simp add: svd_cross_def pca_new_def)


lemma PCA_init_new:
  "0 \<le> f \<Longrightarrow> f \<le> 1 \<Longrightarrow> PCA_init f k w = Inr (pca_new f k w)"
  by (simp add: PCA_init_def PCA_check_params_def pca_new_def)

lemma PCA_reconstruct_cross_1:
  "PCA_reconstruct (pca_cross f k False (Suc 0)) X_cross = Inr [[-2, 0], [2, 0], [0, 0], [0, 0]]"
  by (simp add: PCA_reconstruct_def sk_transform_def sk_inverse_transform_def
        check_array_cross pca_cross_def pca_new_def cross_params_def)
     (simp add: X_cross_def transform_row_def inverse_row_def dot_def vec_sub_def)

lemma PCA_scores_cross_1:
  "PCA_anomaly_score (pca_cross f k False (Suc 0)) None = Inr [0, 0, 1, 1]"
proof -
  have "X' (pca_cross f k False (Suc 0)) = Some X_cross"
    by (simp add: pca_cross_def)
  then show ?thesis
    by (simp add: PCA_anomaly_score_def PCA_reconstruct_cross_1)
       (simp add: X_cross_def mat_sub_def vec_sub_def mat_square_def np_sum_axis1_def)
qed

lemma PCA_fit_cross_1:
  "PCA_fit svd_cross (pca_new (1 / 2) (Some (Suc 0)) False) X_cross =
     ((pca_cross (1 / 2) (Some (Suc 0)) False (Suc 0))\<lparr>pca_threshold' := Some (1 / 2)\<rparr>, Inr ())"
proof -
  have s: "PCA_anomaly_score
             ((pca_new (1 / 2) (Some (Suc 0)) False)\<lparr>X' := Some X_cross,
                pca := (pca (pca_new (1 / 2) (Some (Suc 0)) False))\<lparr>fitted := Some (cross_params (Suc 0))\<rparr>\<rparr>)
             None = Inr [0, 0, 1, 1]"
    using PCA_scores_cross_1 [of "1 / 2" "Some 1"] by (simp add: pca_cross_def)
  have p: "np_percentile [0, 0, 1, 1] (100 * (1 - pca_fpr (pca_new (1 / 2) (Some (Suc 0)) False))) =
           Inr (1 / 2)"
    by (simp add: np_percentile_def pca_new_def)
  show ?thesis
    using PCA_fit_I [where svd = svd_cross and d = "pca_new (1 / 2) (Some (Suc 0)) False",
                     OF check_array_cross svd_cross_1 s p]
    by (simp add: pca_cross_def)
qed

section \<open>The threshold a fit stores\<close>

text \<open>
  Claim C1. A successful \<^verbatim>\<open>fit(X)\<close> of either detector stores, as threshold, the
  \<open>100 * (1 - fpr)\<close> percentile (linear interpolation) of the anomaly scores that the
  fitted object itself gives to the training matrix \<open>X\<close>. The fitted parameters of that
  object are the ones the estimation has just returned, and for the reconstruction
  detector the scores of the stored matrix (\<^verbatim>\<open>X=None\<close>) are the scores of \<open>X\<close>.
\<close>

theorem fit_threshold_is_training_percentile:
  "(gmm_fit em pdf g X = (g', Inr ()) \<longrightarrow>
      (\<exists>est scores t.
          em g X = Inr est \<and> weights' g' = Some (est_weights est) \<and>
          means' g' = Some (est_means est) \<and> covariances' g' = Some (est_covariances est) \<and>
          gm_fpr g' = gm_fpr g \<and>
          gmm_anomaly_score pdf g' X = Inr scores \<and>
          np_percentile scores (100 * (1 - gm_fpr g')) = Inr t \<and>
          gm_threshold' g' = Some t)) \<and>
   (PCA_fit svd d Y = (d', Inr ()) \<longrightarrow>
      (\<exists>ps scores t.
          svd (pca d) Y = Inr ps \<and> fitted (pca d') = Some ps \<and> X' d' = Some Y \<and>
          pca_fpr d' = pca_fpr d \<and>
          PCA_anomaly_score d' (Some Y) = Inr scores \<and>
          PCA_anomaly_score d' None = Inr scores \<and>
          np_percentile scores (100 * (1 - pca_fpr d')) = Inr t \<and>
          pca_threshold' d' = Some t))"
proof (intro conjI impI)
  assume "gmm_fit em pdf g X = (g', Inr ())"
  from gmm_fit_ok [OF this] obtain est scores t where
    e: "em g X = Inr est"
    and g': "g' = g\<lparr>weights' := Some (est_weights est), means' := Some (est_means est),
                     covariances' := Some (est_covariances est),
                     precisions' := Some (est_precisions est), gm_threshold' := Some t\<rparr>"
    and s: "gmm_anomaly_score pdf g' X = Inr scores"
    and p: "np_percentile scores (100 * (1 - gm_fpr g)) = Inr t"
    by blast
  have "gm_fpr g' = gm_fpr g" "weights' g' = Some (est_weights est)"
    "means' g' = Some (est_means est)" "covariances' g' = Some (est_covariances est)"
    "gm_threshold' g' = Some t"
    by (simp_all add: g')
  with e s p show "\<exists>est scores t.
          em g X = Inr est \<and> weights' g' = Some (est_weights est) \<and>
          means' g' = Some (est_means est) \<and> covariances' g' = Some (est_covariances est) \<and>
          gm_fpr g' = gm_fpr g \<and>
          gmm_anomaly_score pdf g' X = Inr scores \<and>
          np_percentile scores (100 * (1 - gm_fpr g')) = Inr t \<and>
          gm_threshold' g' = Some t"
    by auto
next
  assume "PCA_fit svd d Y = (d', Inr ())"
  from PCA_fit_ok [OF this] obtain ps scores t where
    e: "svd (pca d) Y = Inr ps"
    and d': "d' = d\<lparr>X' := Some Y, pca := (pca d)\<lparr>fitted := Some ps\<rparr>,
                     pca_threshold' := Some t\<rparr>"
    and s: "PCA_anomaly_score d' (Some Y) = Inr scores"
    and p: "np_percentile scores (100 * (1 - pca_fpr d)) = Inr t"
    by blast
  have f: "pca_fpr d' = pca_fpr d" "fitted (pca d') = Some ps" "X' d' = Some Y"
    "pca_threshold' d' = Some t"
    by (simp_all add: d')
  have "PCA_anomaly_score d' None = Inr scores"
    using PCA_anomaly_score_default [OF f(3)] s by simp
  with e s p f show "\<exists>ps scores t.
          svd (pca d) Y = Inr ps \<and> fitted (pca d') = Some ps \<and> X' d' = Some Y \<and>
          pca_fpr d' = pca_fpr d \<and>
          PCA_anomaly_score d' (Some Y) = Inr scores \<and>
          PCA_anomaly_score d' None = Inr scores \<and>
          np_percentile scores (100 * (1 - pca_fpr d')) = Inr t \<and>
          pca_threshold' d' = Some t"
    by auto
qed

theorem fit_threshold_is_training_percentile_witness:
  "gmm_fit em_1d normal_pdf_1d (gm_default (1 / 100)) X_line =
     ((gm_line (1 / 100))\<lparr>gm_threshold' := Some line_score\<rparr>, Inr ()) \<and>
   (\<exists>scores t.
      gmm_anomaly_score normal_pdf_1d ((gm_line (1 / 100))\<lparr>gm_threshold' := Some line_score\<rparr>)
        X_line = Inr scores \<and>
      np_percentile scores 99 = Inr t \<and> t = line_score) \<and>
   PCA_fit svd_cross (pca_new (1 / 2) (Some (Suc 0)) False) X_cross =
     ((pca_cross (1 / 2) (Some (Suc 0)) False (Suc 0))\<lparr>pca_threshold' := Some (1 / 2)\<rparr>,
      Inr ()) \<and>
   (\<exists>scores t.
      PCA_anomaly_score
        ((pca_cross (1 / 2) (Some (Suc 0)) False (Suc 0))\<lparr>pca_threshold' := Some (1 / 2)\<rparr>)
        (Some X_cross) = Inr scores \<and>
      np_percentile scores 50 = Inr t \<and> t = 1 / 2)"
  using fit_threshold_is_training_percentile
          [where em = em_1d and pdf = normal_pdf_1d and g = "gm_default (1 / 100)"
             and X = X_line
             and g' = "(gm_line (1 / 100))\<lparr>gm_threshold' := Some line_score\<rparr>"
             and svd = svd_cross and d = "pca_new (1 / 2) (Some (Suc 0)) False"
             and Y = X_cross
             and d' = "(pca_cross (1 / 2) (Some (Suc 0)) False (Suc 0))\<lparr>pca_threshold' :=
                         Some (1 / 2)\<rparr>"]
        gmm_fit_line PCA_fit_cross_1
  by (auto simp: gm_line_def gm_default_def gmm_init_def pca_cross_def pca_new_def)

section \<open>Validation of the false positive rate\<close>

text \<open>
  Claim C3 says that every detector refuses a false positive rate outside \<open>[0, 1]\<close> at
  construction. The constructor of the mixture detector checks nothing: with
  \<^verbatim>\<open>fpr=1.5\<close> and the other defaults it returns an object, and the rate is refused only
  when \<^verbatim>\<open>fit\<close> asks numpy for the percentile \<open>-50\<close>.
\<close>

theorem gmm_init_accepts_any_fpr:
  "gm_fpr (gmm_init (3 / 2) 100 None 1 None None (1 / 1000) None) = 3 / 2 \<and>
   gmm_fit em_1d normal_pdf_1d (gmm_init (3 / 2) 100 None 1 None None (1 / 1000) None) X_line =
     (gm_line (3 / 2), Inl ValueError)"
  using gmm_fit_line_out_of_range by (simp add: gm_default_def gmm_init_def)

text \<open>
  Claim C3, amended. The constructor of the reconstruction detector fails with ValueError
  exactly when the rate is outside \<open>[0, 1]\<close>, and returns an unfitted object otherwise, the
  boundary values 0 and 1 included. The constructor of the mixture detector checks
  nothing: for every rate it returns an unfitted object that stores the rate.
\<close>

theorem fpr_validation:
  "((f < 0 \<or> 1 < f) \<longrightarrow> PCA_init f k w = Inl ValueError) \<and>
   (0 \<le> f \<and> f \<le> 1 \<longrightarrow>
      PCA_init f k w =
        Inr \<lparr>pca_fpr = f, pca = \<lparr>pca_n_components = k, whiten = w, fitted = None\<rparr>,
             X' = None, pca_threshold' = None\<rparr>) \<and>
   gm_fpr (gmm_init f mi m0 n p0 rs t w0) = f \<and>
   weights' (gmm_init f mi m0 n p0 rs t w0) = None \<and>
   means' (gmm_init f mi m0 n p0 rs t w0) = None \<and>
   covariances' (gmm_init f mi m0 n p0 rs t w0) = None \<and>
   precisions' (gmm_init f mi m0 n p0 rs t w0) = None \<and>
   gm_threshold' (gmm_init f mi m0 n p0 rs t w0) = None"
proof (intro conjI impI)
  assume "f < 0 \<or> 1 < f"
  then show "PCA_init f k w = Inl ValueError"
    by (auto simp: PCA_init_def PCA_check_params_def)
next
  assume "0 \<le> f \<and> f \<le> 1"
  then show "PCA_init f k w =
        Inr \<lparr>pca_fpr = f, pca = \<lparr>pca_n_components = k, whiten = w, fitted = None\<rparr>,
             X' = None, pca_threshold' = None\<rparr>"
    by (simp add: PCA_init_def PCA_check_params_def)
qed (simp_all add: gmm_init_def)

theorem fpr_validation_witness:
  "PCA_init (3 / 2) None False = Inl ValueError \<and>
   PCA_init 0 None False = Inr (pca_new 0 None False) \<and>
   PCA_init 1 None False = Inr (pca_new 1 None False) \<and>
   gm_fpr (gm_default (3 / 2)) = 3 / 2 \<and>
   gm_threshold' (gm_default (3 / 2)) = None"
  using fpr_validation [of "3 / 2" None False 100 None 1 None None "1 / 1000" None]
        fpr_validation [of 0 None False 100 None 1 None None "1 / 1000" None]
        fpr_validation [of 1 None False 100 None 1 None None "1 / 1000" None]
  by (simp add: pca_new_def gm_default_def)

section \<open>The reconstruction error is not negative\<close>

lemma sum_list_squares_nonneg: "0 \<le> sum_list (map (\<lambda>a. a\<^sup>2) (v :: real list))"
  by (rule sum_list_nonneg) auto

text \<open>
  Claim C10. Every entry of a score vector that the reconstruction detector returns, for a
  given matrix or for the stored training matrix (\<^verbatim>\<open>X=None\<close>), is the square root of a sum
  of squares and so not negative; and after a successful fit the call with \<^verbatim>\<open>X=None\<close>
  does return such a vector, with one entry per training sample.
\<close>

theorem PCA_anomaly_score_nonneg:
  "(PCA_anomaly_score d Xo = Inr scores \<longrightarrow> (\<forall>v \<in> set scores. 0 \<le> v)) \<and>
   (PCA_fit svd d0 X = (d', Inr ()) \<longrightarrow>
      (\<exists>s. PCA_anomaly_score d' None = Inr s \<and> (\<forall>v \<in> set s. 0 \<le> v)))"
proof -
  have nonneg: "\<forall>v \<in> set s. 0 \<le> v" if "PCA_anomaly_score e Yo = Inr s" for e Yo s
    using that
    by (auto simp: PCA_anomaly_score_def np_sum_axis1_def mat_square_def
          sum_list_squares_nonneg split: sum.splits option.splits)
  show ?thesis
  proof (intro conjI impI)
    assume "PCA_anomaly_score d Xo = Inr scores"
    then show "\<forall>v \<in> set scores. 0 \<le> v" by (rule nonneg)
  next
    assume "PCA_fit svd d0 X = (d', Inr ())"
    from PCA_fit_ok [OF this] obtain s where
      "X' d' = Some X" and "PCA_anomaly_score d' (Some X) = Inr s"
      by auto
    then have "PCA_anomaly_score d' None = Inr s"
      using PCA_anomaly_score_default by simp
    then show "\<exists>s. PCA_anomaly_score d' None = Inr s \<and> (\<forall>v \<in> set s. 0 \<le> v)"
      using nonneg by blast
  qed
qed

theorem PCA_anomaly_score_nonneg_witness:
  "PCA_anomaly_score (pca_cross (1 / 2) (Some (Suc 0)) False (Suc 0)) None = Inr [0, 0, 1, 1] \<and>
   list_all (\<lambda>v. 0 \<le> v) [0, 0, 1, 1 :: real] \<and>
   PCA_fit svd_cross (pca_new (1 / 2) (Some (Suc 0)) False) X_cross =
     ((pca_cross (1 / 2) (Some (Suc 0)) False (Suc 0))\<lparr>pca_threshold' := Some (1 / 2)\<rparr>,
      Inr ()) \<and>
   (\<exists>s. PCA_anomaly_score
          ((pca_cross (1 / 2) (Some (Suc 0)) False (Suc 0))\<lparr>pca_threshold' := Some (1 / 2)\<rparr>)
          None = Inr s \<and> list_all (\<lambda>v. 0 \<le> v) s)"
  using PCA_anomaly_score_nonneg
          [where d = "pca_cross (1 / 2) (Some (Suc 0)) False (Suc 0)" and Xo = None
             and scores = "[0, 0, 1, 1]" and svd = svd_cross
             and ?d0.0 = "pca_new (1 / 2) (Some (Suc 0)) False" and X = X_cross
             and d' = "(pca_cross (1 / 2) (Some (Suc 0)) False (Suc 0))\<lparr>pca_threshold' :=
                         Some (1 / 2)\<rparr>"]
        PCA_scores_cross_1 [of "1 / 2" "Some (Suc 0)"] PCA_fit_cross_1
  by (auto simp: list_all_iff)

section \<open>Scoring before and after a fit\<close>

text \<open>
  The mixture detector checks its fitted attributes first, whatever the input is; the
  reconstruction detector has no check of its own and relies on the one in
  scikit-learn's \<^verbatim>\<open>transform\<close> and \<^verbatim>\<open>score\<close>, which is reached when a matrix is given.
\<close>

lemma gmm_unfitted_not_fitted:
  "weights' g = None \<or> means' g = None \<or> covariances' g = None \<or> precisions' g = None \<Longrightarrow>
     gmm_anomaly_score pdf g X = Inl NotFittedError"
  by (auto simp: gmm_anomaly_score_def check_is_fitted_def)

lemma gmm_init_not_fitted:
  "gmm_anomaly_score pdf (gmm_init f mi m0 n p0 rs t w0) X = Inl NotFittedError"
  by (rule gmm_unfitted_not_fitted) (simp add: gmm_init_def)

lemma PCA_unfitted_not_fitted:
  assumes "fitted (pca d) = None"
  shows "PCA_anomaly_score d (Some X) = Inl NotFittedError"
    and "PCA_reconstruct d X = Inl NotFittedError"
    and "PCA_score loglik d X = Inl NotFittedError"
  using assms
  by (simp_all add: PCA_anomaly_score_def PCA_reconstruct_def PCA_score_def sk_transform_def
        sk_score_def)

lemma gmm_fitted_never_not_fitted:
  assumes "gmm_fit em pdf g X = (g', Inr ())"
  shows "gmm_anomaly_score pdf g' Y \<noteq> Inl NotFittedError"
  using gmm_fit_ok [OF assms]
  by (auto simp: gmm_anomaly_score_def check_is_fitted_def check_array_def
        split: sum.splits if_splits)

lemma PCA_fitted_reconstruct:
  assumes "PCA_fit svd d X = (d', Inr ())"
  shows "PCA_reconstruct d' Y \<noteq> Inl NotFittedError"
  using PCA_fit_ok [OF assms]
  by (auto simp: PCA_reconstruct_def sk_transform_def sk_inverse_transform_def
        check_array_def split: sum.splits if_splits)

lemma PCA_fitted_never_not_fitted:
  assumes "PCA_fit svd d X = (d', Inr ())"
  shows "PCA_anomaly_score d' Yo \<noteq> Inl NotFittedError"
    and "PCA_reconstruct d' Y \<noteq> Inl NotFittedError"
    and "PCA_score loglik d' Y \<noteq> Inl NotFittedError"
proof -
  show "PCA_reconstruct d' Y \<noteq> Inl NotFittedError"
    by (rule PCA_fitted_reconstruct [OF assms])
  show "PCA_anomaly_score d' Yo \<noteq> Inl NotFittedError"
    using PCA_fitted_reconstruct [OF assms]
    by (auto simp: PCA_anomaly_score_def split: sum.splits option.splits)
  show "PCA_score loglik d' Y \<noteq> Inl NotFittedError"
    using PCA_fit_ok [OF assms]
    by (auto simp: PCA_score_def sk_score_def check_array_def split: sum.splits if_splits)
qed

text \<open>
  Claim C2 says that every scoring call before a fit fails with NotFitted. On a
  reconstruction detector that was constructed with the defaults and never fitted,
  \<^verbatim>\<open>anomaly_score()\<close> with the default \<^verbatim>\<open>X=None\<close> reads \<^verbatim>\<open>self.X_\<close> before anything checks
  the fitted state, and fails with AttributeError.
\<close>

theorem PCA_unfitted_default_score_attribute_error:
  "PCA_init (1 / 100) None False = Inr (pca_new (1 / 100) None False) \<and>
   PCA_anomaly_score (pca_new (1 / 100) None False) None = Inl AttributeError"
  by (simp add: PCA_init_def PCA_check_params_def pca_new_def PCA_anomaly_score_def)

section \<open>What a failing fit leaves\<close>












section \<open>Scoring leaves the detector as it is\<close>











text \<open>
  The methods do not keep the detector by themselves: with a \<^verbatim>\<open>transform\<close> that works
  in place on its argument, \<^verbatim>\<open>anomaly_score()\<close> with \<^verbatim>\<open>X=None\<close> changes the stored
  training matrix, because the method hands \<^verbatim>\<open>self.X_\<close> itself to \<^verbatim>\<open>transform\<close>.
\<close>

lemma in_place_transform_changes_training_matrix:
  "X' (fst (PCA_anomaly_score_method shifting_in_place
              (pca_cross (1 / 2) (Some (Suc 0)) False (Suc 0)) None)) =
     Some [[-3, -1], [1, -1], [-1, 0], [-1, -2]]"
  by (simp add: PCA_anomaly_score_method_def PCA_reconstruct_method_def shifting_in_place_def
        no_effects_def pca_cross_def pca_new_def split: sum.splits prod.splits)
     (simp add: X_cross_def)



section \<open>Sums over lists as sums over indices\<close>

lemma sum_list_map_nth:
  "sum_list (map f xs) = (\<Sum>k<length xs. f (xs ! k))"
proof -
  have "sum_list (map f xs) = (\<Sum>k = 0..<length (map f xs). map f xs ! k)"
    by (rule sum_list_sum_nth)
  also have "\<dots> = (\<Sum>k<length xs. f (xs ! k))"
    by (simp add: atLeast0LessThan)
  finally show ?thesis .
qed

lemma sum_list_map2_nth:
  assumes "length xs = length ys"
  shows "sum_list (map2 f xs ys) = (\<Sum>k<length xs. f (xs ! k) (ys ! k))"
proof -
  have "sum_list (map2 f xs ys) = (\<Sum>k<length (zip xs ys). (\<lambda>(x, y). f x y) (zip xs ys ! k))"
    by (rule sum_list_map_nth)
  also have "\<dots> = (\<Sum>k<length xs. f (xs ! k) (ys ! k))"
    using assms by (intro sum.cong) auto
  finally show ?thesis .
qed

lemma map2_map_same: "map2 f xs (map g xs) = map (\<lambda>x. f x (g x)) xs"
  by (induction xs) simp_all

section \<open>The score of the mixture detector\<close>

lemma gmm_anomaly_score_fitted:
  assumes "weights' g = Some ws" and "means' g = Some ms" and "covariances' g = Some cs"
    and "precisions' g \<noteq> None" and "check_array X = Inr X"
  shows "gmm_anomaly_score pdf g X =
           Inr (map (\<lambda>i. - ln (sum_list (map (\<lambda>(w, m, c). w * pdf (X ! i) m c)
                                             (zip ws (zip ms cs)))))
                    [0..<length X])"
  using assms
  by (simp add: gmm_anomaly_score_def check_is_fitted_def np_sum_axis0_def
        multivariate_normal_pdf_def comp_def case_prod_unfold)



section \<open>The score of the mixture detector where the densities underflow\<close>

lemma gmm_anomaly_score_np_fitted:
  assumes "weights' g = Some ws" and "means' g = Some ms" and "covariances' g = Some cs"
    and "precisions' g \<noteq> None" and "check_array X = Inr X"
  shows "gmm_anomaly_score_np pdf g X =
           Inr (map (\<lambda>i. np_negative (np_log (sum_list (map (\<lambda>(w, m, c). w * pdf (X ! i) m c)
                                                            (zip ws (zip ms cs))))))
                    [0..<length X])"
  using assms
  by (simp add: gmm_anomaly_score_np_def check_is_fitted_def np_sum_axis0_def
        multivariate_normal_pdf_def comp_def case_prod_unfold)

lemma gmm_mixture_sum:
  assumes "length ms = length ws" and "length cs = length ws"
  shows "sum_list (map (\<lambda>(w, m, c). w * pdf x m c) (zip ws (zip ms cs))) =
           (\<Sum>k<length ws. ws ! k * pdf x (ms ! k) (cs ! k))"
proof -
  have "sum_list (map (\<lambda>(w, m, c). w * pdf x m c) (zip ws (zip ms cs))) =
          (\<Sum>k<length (zip ws (zip ms cs)).
             (\<lambda>(w, m, c). w * pdf x m c) (zip ws (zip ms cs) ! k))"
    by (rule sum_list_map_nth)
  also have "\<dots> = (\<Sum>k<length ws. ws ! k * pdf x (ms ! k) (cs ! k))"
    using assms by (intro sum.cong) auto
  finally show ?thesis .
qed

text \<open>Where every sum is positive, the two readings of the method agree.\<close>

lemma gmm_anomaly_score_np_finite:
  assumes "weights' g = Some ws" and "means' g = Some ms" and "covariances' g = Some cs"
    and "precisions' g \<noteq> None" and "check_array X = Inr X"
    and "length ms = length ws" and "length cs = length ws"
    and "\<forall>i<length X. 0 < (\<Sum>k<length ws. ws ! k * pdf (X ! i) (ms ! k) (cs ! k))"
  shows "\<exists>s. gmm_anomaly_score pdf g X = Inr s \<and>
              gmm_anomaly_score_np pdf g X = Inr (map Finite s)"
  using assms(8)
  by (simp add: gmm_anomaly_score_fitted [OF assms(1-5)]
        gmm_anomaly_score_np_fitted [OF assms(1-5)] gmm_mixture_sum [OF assms(6,7)]
        np_log_def)

lemma two_pow_le_exp: "(2::real) ^ n \<le> exp (real n)"
proof -
  have "(2::real) \<le> exp 1" using exp_ge_add_one_self [of "1::real"] by simp
  then have "(2::real) ^ n \<le> exp 1 ^ n" by (intro power_mono) auto
  also have "\<dots> = exp (real n)" using exp_of_nat_mult [of n "1::real"] by simp
  finally show ?thesis .
qed

lemma normal_pdf_1d_far:
  "normal_pdf_1d [100] [0] [[1000001 / 1000000]] < 1 / 2 ^ 1075"
proof -
  define E :: real where "E = exp (- (100 - 0)\<^sup>2 / (2 * (1000001 / 1000000)))"
  define S :: real where "S = sqrt (2 * pi * (1000001 / 1000000))"
  have "E < exp (- real 1075)"
    unfolding E_def by simp
  also have "\<dots> = 1 / exp (real 1075)"
    by (simp add: exp_minus inverse_eq_divide)
  also have "\<dots> \<le> 1 / 2 ^ 1075"
    by (intro divide_left_mono two_pow_le_exp) auto
  finally have e: "E < 1 / 2 ^ 1075" .
  have "1 \<le> 2 * pi * (1000001 / 1000000)" using pi_ge_two by simp
  then have r: "1 \<le> S" unfolding S_def by simp
  have pos: "0 \<le> E" unfolding E_def by simp
  have "E / S \<le> E / 1"
    by (rule divide_left_mono [OF r pos]) (use r in simp)
  then have "E / S \<le> E" by (simp only: div_by_1)
  then have "E / S < 1 / 2 ^ 1075" using e by (rule le_less_trans)
  moreover have "normal_pdf_1d [100] [0] [[1000001 / 1000000]] = E / S"
    by (simp add: normal_pdf_1d_def E_def S_def)
  ultimately show ?thesis by (simp only:)
qed

lemma normal_pdf_1d_near:
  shows "1 / 2 ^ 1075 \<le> normal_pdf_1d [1] [0] [[1000001 / 1000000]]"
    and "0 < normal_pdf_1d [1] [0] [[1000001 / 1000000]]"
proof -
  define E :: real where "E = exp (- (1 - 0)\<^sup>2 / (2 * (1000001 / 1000000)))"
  define S :: real where "S = sqrt (2 * pi * (1000001 / 1000000))"
  have "exp (- 1) \<le> E" unfolding E_def by simp
  moreover have "1 / 3 \<le> exp (- 1 :: real)"
    using exp_le by (simp add: exp_minus inverse_eq_divide field_simps)
  ultimately have e: "1 / 3 \<le> E" by linarith
  have "2 * pi * (1000001 / 1000000) \<le> 9" using pi_less_4 by simp
  then have "S \<le> sqrt 9" unfolding S_def by (rule real_sqrt_le_mono)
  also have "sqrt 9 = (3::real)" using real_sqrt_abs [of 3] by simp
  finally have r: "S \<le> 3" .
  have pos: "0 < S" unfolding S_def using pi_gt_zero by simp
  have nonneg: "0 \<le> E" using e by linarith
  have "(1 / 3) / 3 \<le> E / S"
    by (rule frac_le [OF nonneg e pos r])
  moreover have "normal_pdf_1d [1] [0] [[1000001 / 1000000]] = E / S"
    by (simp add: normal_pdf_1d_def E_def S_def)
  ultimately have n: "1 / 9 \<le> normal_pdf_1d [1] [0] [[1000001 / 1000000]]"
    by simp
  have "(1::real) / 2 ^ 1075 \<le> 1 / 9"
    by (intro divide_left_mono) auto
  then show "1 / 2 ^ 1075 \<le> normal_pdf_1d [1] [0] [[1000001 / 1000000]]"
    using n by (rule order_trans)
  from n show "0 < normal_pdf_1d [1] [0] [[1000001 / 1000000]]" by linarith
qed

lemma float_normal_pdf_1d_far: "float_normal_pdf_1d [100] [0] [[1000001 / 1000000]] = 0"
  using normal_pdf_1d_far by (simp add: float_normal_pdf_1d_def)

lemma float_normal_pdf_1d_near:
  "float_normal_pdf_1d [1] [0] [[1000001 / 1000000]] =
     normal_pdf_1d [1] [0] [[1000001 / 1000000]]"
  using normal_pdf_1d_near(1) by (simp add: float_normal_pdf_1d_def)

text \<open>
  Claim C6 says that the score is computed as a log-sum-exp of the log-densities, so that
  it stays finite when every component density is below the least positive double. The
  method takes one logarithm of the sum of the densities: for the detector fitted to
  \<open>-1\<close> and \<open>1\<close>, the density at the sample \<open>100\<close> is below \<open>2\<^sup>-\<^sup>1\<^sup>0\<^sup>7\<^sup>5\<close> and is 0 in double
  precision, and the score of that sample is \<^verbatim>\<open>inf\<close>.
\<close>

theorem gmm_score_underflows_to_inf:
  "gmm_anomaly_score_np float_normal_pdf_1d (gm_line (1 / 100)) [[100]] = Inr [PosInf]"
proof -
  have c: "check_array [[100]] = Inr [[100]]" by (simp add: check_array_def)
  have "gmm_anomaly_score_np float_normal_pdf_1d (gm_line (1 / 100)) [[100]] =
          Inr (map (\<lambda>i. np_negative (np_log (sum_list
                 (map (\<lambda>(w, m, c). w * float_normal_pdf_1d ([[100]] ! i) m c)
                    (zip [1] (zip [[0]] [[[1000001 / 1000000]]]))))))
                 [0..<length [[100 :: real]]])"
    by (rule gmm_anomaly_score_np_fitted [OF _ _ _ _ c]) (simp_all add: gm_line_def)
  then show ?thesis by (simp add: float_normal_pdf_1d_far np_log_def)
qed

text \<open>
  Claim C6, amended. The score of the mixture detector is computed directly, without a
  log-sum-exp: it is the negated logarithm, as numpy takes it, of the sum over the
  components of weight times density. Where that sum is positive the score is the
  finite number \<open>- ln\<close> of the sum; where every component density at the sample is 0, as
  it is once it has underflowed, the score is \<^verbatim>\<open>inf\<close>.
\<close>

theorem gmm_score_direct_log:
  assumes "weights' g = Some ws" and "means' g = Some ms" and "covariances' g = Some cs"
    and "precisions' g \<noteq> None"
    and "length ms = length ws" and "length cs = length ws"
    and "check_array X = Inr X"
    and "list_all (\<lambda>m. length m = length (hd X)) ms"
  shows "\<exists>scores. gmm_anomaly_score_np pdf g X = Inr scores \<and> length scores = length X \<and>
           (\<forall>i<length X.
              scores ! i =
                np_negative (np_log (\<Sum>k<length ws. ws ! k * pdf (X ! i) (ms ! k) (cs ! k))) \<and>
              (0 < (\<Sum>k<length ws. ws ! k * pdf (X ! i) (ms ! k) (cs ! k)) \<longrightarrow>
                 scores ! i =
                   Finite (- ln (\<Sum>k<length ws. ws ! k * pdf (X ! i) (ms ! k) (cs ! k)))) \<and>
              ((\<forall>k<length ws. pdf (X ! i) (ms ! k) (cs ! k) = 0) \<longrightarrow> scores ! i = PosInf))"
proof -
  let ?sum = "\<lambda>i. \<Sum>k<length ws. ws ! k * pdf (X ! i) (ms ! k) (cs ! k)"
  let ?scores = "map (\<lambda>i. np_negative (np_log (?sum i))) [0..<length X]"
  have s: "gmm_anomaly_score_np pdf g X = Inr ?scores"
    by (simp add: gmm_anomaly_score_np_fitted [OF assms(1-4) assms(7)]
          gmm_mixture_sum [OF assms(5,6)])
  have "?scores ! i = np_negative (np_log (?sum i)) \<and>
        (0 < ?sum i \<longrightarrow> ?scores ! i = Finite (- ln (?sum i))) \<and>
        ((\<forall>k<length ws. pdf (X ! i) (ms ! k) (cs ! k) = 0) \<longrightarrow> ?scores ! i = PosInf)"
    if "i < length X" for i
  proof (intro conjI impI)
    show e: "?scores ! i = np_negative (np_log (?sum i))" using that by simp
    show "?scores ! i = Finite (- ln (?sum i))" if "0 < ?sum i"
      using e that by (simp add: np_log_def)
    show "?scores ! i = PosInf" if "\<forall>k<length ws. pdf (X ! i) (ms ! k) (cs ! k) = 0"
    proof -
      from that have "?sum i = 0" by simp
      with e show ?thesis by (simp add: np_log_def)
    qed
  qed
  moreover have "length ?scores = length X" by simp
  ultimately show ?thesis using s by blast
qed

theorem gmm_score_direct_log_witness:
  "\<exists>scores. gmm_anomaly_score_np float_normal_pdf_1d (gm_line (1 / 100)) [[1], [100]] =
               Inr scores \<and>
     length scores = 2 \<and> scores ! 0 = Finite line_score \<and> scores ! 1 = PosInf"
proof -
  let ?X = "[[1], [100]] :: mat"
  let ?v = "1000001 / 1000000 :: real"
  let ?sum = "\<lambda>i. \<Sum>k<length [1 :: real].
                 [1] ! k * float_normal_pdf_1d (?X ! i) ([[0]] ! k) ([[[?v]]] ! k)"
  have "\<exists>scores. gmm_anomaly_score_np float_normal_pdf_1d (gm_line (1 / 100)) ?X = Inr scores \<and>
          length scores = length ?X \<and>
          (\<forall>i<length ?X.
             scores ! i = np_negative (np_log (?sum i)) \<and>
             (0 < ?sum i \<longrightarrow> scores ! i = Finite (- ln (?sum i))) \<and>
             ((\<forall>k<length [1 :: real].
                  float_normal_pdf_1d (?X ! i) ([[0]] ! k) ([[[?v]]] ! k) = 0) \<longrightarrow>
                scores ! i = PosInf))"
    by (rule gmm_score_direct_log [where ws = "[1]"])
       (simp_all add: gm_line_def check_array_def)
  then obtain scores where
    s: "gmm_anomaly_score_np float_normal_pdf_1d (gm_line (1 / 100)) ?X = Inr scores"
    and l: "length scores = length ?X"
    and f: "\<forall>i<length ?X.
             (0 < ?sum i \<longrightarrow> scores ! i = Finite (- ln (?sum i))) \<and>
             ((\<forall>k<length [1 :: real].
                  float_normal_pdf_1d (?X ! i) ([[0]] ! k) ([[[?v]]] ! k) = 0) \<longrightarrow>
                scores ! i = PosInf)"
    by blast
  have "0 < ?sum 0"
    using normal_pdf_1d_near(2) by (simp add: float_normal_pdf_1d_near)
  with f have "scores ! 0 = Finite (- ln (?sum 0))" by auto
  then have a: "scores ! 0 = Finite line_score"
    by (simp add: float_normal_pdf_1d_near line_score_def)
  have "\<forall>k<length [1 :: real].
          float_normal_pdf_1d (?X ! 1) ([[0]] ! k) ([[[?v]]] ! k) = 0"
    by (simp add: float_normal_pdf_1d_far)
  with f have b: "scores ! 1 = PosInf" by auto
  from l have "length scores = 2" by simp
  with s a b show ?thesis by blast
qed

section \<open>Projection on the retained axes and back\<close>

lemma dot_nth:
  assumes "length u = length v"
  shows "dot u v = (\<Sum>j<length u. u ! j * v ! j)"
  unfolding dot_def by (rule sum_list_map2_nth [OF assms])

lemma vec_sub_length: "length u = length v \<Longrightarrow> length (vec_sub u v) = length v"
  by (simp add: vec_sub_def)

lemma vec_sub_nth:
  "length u = length v \<Longrightarrow> j < length v \<Longrightarrow> vec_sub u v ! j = u ! j - v ! j"
  by (simp add: vec_sub_def)

lemma transform_row_length:
  "shaped ps \<Longrightarrow> length (transform_row p ps x) = length (components' ps)"
  by (simp add: transform_row_def shaped_def Let_def)

lemma transform_row_nth:
  assumes "shaped ps" and "k < length (components' ps)"
  shows "transform_row p ps x ! k =
           dot (vec_sub x (mean' ps)) (components' ps ! k) / scale p ps k"
  using assms by (simp add: transform_row_def shaped_def scale_def Let_def)

lemma inverse_row_length: "length (inverse_row p ps z) = length (mean' ps)"
  by (simp add: inverse_row_def Let_def)

lemma inverse_row_nth:
  assumes "shaped ps" and "length z = length (components' ps)" and "j < length (mean' ps)"
  shows "inverse_row p ps z ! j =
           (\<Sum>k<length (components' ps). z ! k * (scale p ps k * components' ps ! k ! j)) +
           mean' ps ! j"
proof (cases "whiten p")
  case False
  then show ?thesis
    using assms by (simp add: inverse_row_def scale_def sum_list_map2_nth)
next
  case True
  let ?C = "map2 (\<lambda>v c. map (\<lambda>a. sqrt v * a) c) (explained_variance' ps) (components' ps)"
  have len: "length ?C = length (components' ps)"
    using assms(1) by (simp add: shaped_def)
  have row: "length (components' ps ! k) = length (mean' ps)" if "k < length (components' ps)" for k
    using assms(1) that by (simp add: shaped_def list_all_length)
  have "sum_list (map2 (\<lambda>a c. a * c ! j) z ?C) = (\<Sum>k<length z. z ! k * ?C ! k ! j)"
    by (rule sum_list_map2_nth) (simp only: assms(2) len)
  also have "\<dots> = (\<Sum>k<length (components' ps). z ! k * (scale p ps k * components' ps ! k ! j))"
    using assms True row by (intro sum.cong) (auto simp: shaped_def scale_def)
  finally show ?thesis
    using True assms(3) by (simp add: inverse_row_def)
qed

lemma PCA_reconstruct_rows:
  assumes "fitted (pca d) = Some ps" and "check_array X = Inr X"
    and "length (hd X) = length (mean' ps)"
  shows "PCA_reconstruct d X =
           Inr (map (\<lambda>x. inverse_row (pca d) ps (transform_row (pca d) ps x)) X)"
  using assms by (simp add: PCA_reconstruct_def sk_transform_def sk_inverse_transform_def)

lemma PCA_anomaly_score_rows:
  assumes "fitted (pca d) = Some ps" and "check_array X = Inr X"
    and "length (hd X) = length (mean' ps)"
  shows "PCA_anomaly_score d (Some X) =
           Inr (map (\<lambda>x. euclidean_norm
                            (vec_sub x (inverse_row (pca d) ps (transform_row (pca d) ps x)))) X)"
  using PCA_reconstruct_rows [OF assms]
  by (simp add: PCA_anomaly_score_def mat_sub_def mat_square_def np_sum_axis1_def
        map2_map_same euclidean_norm_def comp_def)

lemma check_array_single:
  assumes "check_array X = Inr X" and "i < length X"
  shows "check_array [X ! i] = Inr [X ! i]"
proof -
  have "length (X ! i) = length (hd X)" by (rule check_array_row [OF assms])
  moreover have "hd X \<noteq> []" using assms(1) by (auto simp: check_array_def split: if_splits)
  ultimately have "X ! i \<noteq> []" by auto
  then show ?thesis by (simp add: check_array_def)
qed

lemma PCA_scores_feature_count:
  assumes "PCA_anomaly_score d (Some X) = Inr s" and "fitted (pca d) = Some ps"
  shows "length (hd X) = length (mean' ps)"
  using assms
  by (auto simp: PCA_anomaly_score_def PCA_reconstruct_def sk_transform_def
        split: sum.splits if_splits dest!: check_array_Inr)

text \<open>
  Claim C7. For a fitted reconstruction detector and a matrix of samples with the training
  feature count, \<^verbatim>\<open>anomaly_score\<close> and \<^verbatim>\<open>reconstruct\<close> return one entry per sample; the
  score of sample \<open>i\<close> is the Euclidean norm of the sample minus its reconstruction, and
  is the score the sample gets when it is scored alone. The reconstruction is the
  projection on the retained axes mapped back to the feature space: feature \<open>j\<close> of it is
  the mean plus the sum over the axes \<open>k\<close> of the coordinate of the centred sample on
  axis \<open>k\<close> times entry \<open>j\<close> of that axis (with \<^verbatim>\<open>whiten\<close>, the coordinate is divided and the
  axis multiplied by the same factor).
\<close>

theorem PCA_anomaly_score_is_residual_norm:
  assumes "fitted (pca d) = Some ps" and "shaped ps"
    and "check_array X = Inr X" and "length (hd X) = length (mean' ps)"
  shows "\<exists>R scores.
           PCA_reconstruct d X = Inr R \<and> PCA_anomaly_score d (Some X) = Inr scores \<and>
           length R = length X \<and> length scores = length X \<and>
           (\<forall>i<length X.
              length (R ! i) = length (X ! i) \<and>
              scores ! i = euclidean_norm (vec_sub (X ! i) (R ! i)) \<and>
              PCA_anomaly_score d (Some [X ! i]) = Inr [scores ! i] \<and>
              (\<forall>j<length (mean' ps).
                 R ! i ! j =
                   mean' ps ! j +
                   (\<Sum>k<length (components' ps).
                      dot (vec_sub (X ! i) (mean' ps)) (components' ps ! k) / scale (pca d) ps k *
                      (scale (pca d) ps k * components' ps ! k ! j))))"
proof -
  let ?rec = "\<lambda>x. inverse_row (pca d) ps (transform_row (pca d) ps x)"
  let ?R = "map ?rec X"
  let ?scores = "map (\<lambda>x. euclidean_norm (vec_sub x (?rec x))) X"
  have r: "PCA_reconstruct d X = Inr ?R"
    by (rule PCA_reconstruct_rows [OF assms(1,3,4)])
  have s: "PCA_anomaly_score d (Some X) = Inr ?scores"
    by (rule PCA_anomaly_score_rows [OF assms(1,3,4)])
  have rows: "length (?R ! i) = length (X ! i) \<and>
              ?scores ! i = euclidean_norm (vec_sub (X ! i) (?R ! i)) \<and>
              PCA_anomaly_score d (Some [X ! i]) = Inr [?scores ! i] \<and>
              (\<forall>j<length (mean' ps).
                 ?R ! i ! j =
                   mean' ps ! j +
                   (\<Sum>k<length (components' ps).
                      dot (vec_sub (X ! i) (mean' ps)) (components' ps ! k) / scale (pca d) ps k *
                      (scale (pca d) ps k * components' ps ! k ! j)))"
    if i: "i < length X" for i
  proof (intro conjI allI impI)
    have li: "length (X ! i) = length (hd X)" by (rule check_array_row [OF assms(3) i])
    show "length (?R ! i) = length (X ! i)"
      using i li assms(4) by (simp add: inverse_row_length)
    show "?scores ! i = euclidean_norm (vec_sub (X ! i) (?R ! i))"
      using i by simp
    have c1: "check_array [X ! i] = Inr [X ! i]" by (rule check_array_single [OF assms(3) i])
    have "PCA_anomaly_score d (Some [X ! i]) =
            Inr (map (\<lambda>x. euclidean_norm (vec_sub x (?rec x))) [X ! i])"
      by (rule PCA_anomaly_score_rows [OF assms(1) c1]) (simp add: li assms(4))
    then show "PCA_anomaly_score d (Some [X ! i]) = Inr [?scores ! i]"
      using i by simp
  next
    fix j assume j: "j < length (mean' ps)"
    have "?R ! i ! j = inverse_row (pca d) ps (transform_row (pca d) ps (X ! i)) ! j"
      using i by simp
    also have "\<dots> =
        (\<Sum>k<length (components' ps).
           transform_row (pca d) ps (X ! i) ! k * (scale (pca d) ps k * components' ps ! k ! j)) +
        mean' ps ! j"
      by (rule inverse_row_nth [OF assms(2) transform_row_length [OF assms(2)] j])
    also have "(\<Sum>k<length (components' ps).
           transform_row (pca d) ps (X ! i) ! k * (scale (pca d) ps k * components' ps ! k ! j)) =
        (\<Sum>k<length (components' ps).
           dot (vec_sub (X ! i) (mean' ps)) (components' ps ! k) / scale (pca d) ps k *
           (scale (pca d) ps k * components' ps ! k ! j))"
      by (intro sum.cong refl) (simp add: transform_row_nth [OF assms(2)])
    finally show "?R ! i ! j =
        mean' ps ! j +
        (\<Sum>k<length (components' ps).
           dot (vec_sub (X ! i) (mean' ps)) (components' ps ! k) / scale (pca d) ps k *
           (scale (pca d) ps k * components' ps ! k ! j))"
      by simp
  qed
  have "length ?R = length X" "length ?scores = length X" by simp_all
  with r s rows show ?thesis by blast
qed

lemma shaped_cross_1: "shaped (cross_params (Suc 0))"
  by (simp add: shaped_def cross_params_def)

theorem PCA_anomaly_score_is_residual_norm_witness:
  "PCA_reconstruct (pca_cross (1 / 2) (Some (Suc 0)) False (Suc 0)) X_cross =
     Inr [[-2, 0], [2, 0], [0, 0], [0, 0]] \<and>
   PCA_anomaly_score (pca_cross (1 / 2) (Some (Suc 0)) False (Suc 0)) (Some X_cross) =
     Inr [0, 0, 1, 1] \<and>
   euclidean_norm (vec_sub [0, 1] [0, 0]) = 1 \<and>
   PCA_anomaly_score (pca_cross (1 / 2) (Some (Suc 0)) False (Suc 0)) (Some [[0, 1]]) = Inr [1]"
proof -
  let ?d = "pca_cross (1 / 2) (Some (Suc 0)) False (Suc 0)"
  have f: "fitted (pca ?d) = Some (cross_params (Suc 0))"
    by (simp add: pca_cross_def)
  have n: "length (hd X_cross) = length (mean' (cross_params (Suc 0)))"
    by (simp add: X_cross_def cross_params_def)
  have r: "PCA_reconstruct ?d X_cross = Inr [[-2, 0], [2, 0], [0, 0], [0, 0]]"
    by (rule PCA_reconstruct_cross_1)
  have s: "PCA_anomaly_score ?d (Some X_cross) = Inr [0, 0, 1, 1]"
    using PCA_scores_cross_1 [of "1 / 2" "Some (Suc 0)"]
      PCA_anomaly_score_default [of ?d X_cross]
    by (simp add: pca_cross_def)
  from PCA_anomaly_score_is_residual_norm [OF f shaped_cross_1 check_array_cross n]
  obtain R scores where
    "PCA_reconstruct ?d X_cross = Inr R" and "PCA_anomaly_score ?d (Some X_cross) = Inr scores"
    and a: "\<forall>i<length X_cross.
              length (R ! i) = length (X_cross ! i) \<and>
              scores ! i = euclidean_norm (vec_sub (X_cross ! i) (R ! i)) \<and>
              PCA_anomaly_score ?d (Some [X_cross ! i]) = Inr [scores ! i]"
    by blast
  with r s have R: "R = [[-2, 0], [2, 0], [0, 0], [0, 0]]" and sc: "scores = [0, 0, 1, 1]"
    by simp_all
  have "2 < length X_cross" by (simp add: X_cross_def)
  with a have "scores ! 2 = euclidean_norm (vec_sub (X_cross ! 2) (R ! 2)) \<and>
      PCA_anomaly_score ?d (Some [X_cross ! 2]) = Inr [scores ! 2]"
    by blast
  then have "euclidean_norm (vec_sub [0, 1] [0, 0]) = 1 \<and>
      PCA_anomaly_score ?d (Some [[0, 1]]) = Inr [1]"
    by (simp add: R sc X_cross_def)
  with r s show ?thesis by blast
qed

section \<open>Retaining all components\<close>

lemma retains_all_shaped: "retains_all p ps X U \<Longrightarrow> shaped ps"
  by (simp add: retains_all_def)

lemma retains_all_scale:
  assumes "retains_all p ps X U" and "k < length (components' ps)"
  shows "scale p ps k \<noteq> 0"
proof (cases "whiten p")
  case False
  then show ?thesis by (simp add: scale_def)
next
  case True
  then have "0 < explained_variance' ps ! k"
    using assms by (simp add: retains_all_def shaped_def list_all_length)
  then show ?thesis using True by (simp add: scale_def)
qed

lemma retains_all_orthonormal:
  assumes "retains_all p ps X U" and "k < length (components' ps)"
    and "l < length (components' ps)"
  shows "dot (components' ps ! k) (components' ps ! l) = (if k = l then 1 else 0)"
  using assms by (simp add: retains_all_def list_all_length)

lemma retains_all_coordinates:
  assumes "retains_all p ps X U" and "i < length X" and "j < length (mean' ps)"
  shows "length (U ! i) = length (components' ps)"
    and "X ! i ! j - mean' ps ! j =
           (\<Sum>k<length (components' ps). U ! i ! k * components' ps ! k ! j)"
proof -
  show l: "length (U ! i) = length (components' ps)"
    using assms(1,2) by (simp add: retains_all_def list_all_length)
  have "X ! i ! j - mean' ps ! j =
          sum_list (map2 (\<lambda>a c. a * c ! j) (U ! i) (components' ps))"
    using assms by (simp add: retains_all_def list_all_length)
  then show "X ! i ! j - mean' ps ! j =
           (\<Sum>k<length (components' ps). U ! i ! k * components' ps ! k ! j)"
    using l by (simp add: sum_list_map2_nth)
qed

text \<open>
  The coordinate of a centred training sample on an axis is its coordinate in the
  decomposition: the axes are orthonormal.
\<close>

lemma retains_all_projection:
  assumes r: "retains_all p ps X U" and i: "i < length X"
    and x: "length (X ! i) = length (mean' ps)" and l: "l < length (components' ps)"
  shows "dot (vec_sub (X ! i) (mean' ps)) (components' ps ! l) = U ! i ! l"
proof -
  let ?C = "components' ps" and ?m = "mean' ps"
  let ?K = "length (components' ps)" and ?D = "length (mean' ps)"
  have row: "length (?C ! k) = ?D" if "k < ?K" for k
    using retains_all_shaped [OF r] that by (simp add: shaped_def list_all_length)
  have "dot (vec_sub (X ! i) ?m) (?C ! l) =
          (\<Sum>j<length (vec_sub (X ! i) ?m). vec_sub (X ! i) ?m ! j * ?C ! l ! j)"
    by (rule dot_nth) (simp add: vec_sub_length [OF x] row [OF l])
  also have "\<dots> = (\<Sum>j<?D. (X ! i ! j - ?m ! j) * ?C ! l ! j)"
    using x by (simp add: vec_sub_length vec_sub_nth)
  also have "\<dots> = (\<Sum>j<?D. (\<Sum>k<?K. U ! i ! k * ?C ! k ! j) * ?C ! l ! j)"
    by (intro sum.cong refl) (simp add: retains_all_coordinates(2) [OF r i])
  also have "\<dots> = (\<Sum>j<?D. \<Sum>k<?K. U ! i ! k * (?C ! k ! j * ?C ! l ! j))"
    by (simp add: sum_distrib_right mult.assoc)
  also have "\<dots> = (\<Sum>k<?K. \<Sum>j<?D. U ! i ! k * (?C ! k ! j * ?C ! l ! j))"
    by (rule sum.swap)
  also have "\<dots> = (\<Sum>k<?K. U ! i ! k * (\<Sum>j<?D. ?C ! k ! j * ?C ! l ! j))"
    by (simp add: sum_distrib_left)
  also have "\<dots> = (\<Sum>k<?K. U ! i ! k * dot (?C ! k) (?C ! l))"
  proof (intro sum.cong refl)
    fix k assume "k \<in> {..<?K}"
    then have k: "k < ?K" by simp
    have "dot (?C ! k) (?C ! l) = (\<Sum>j<length (?C ! k). ?C ! k ! j * ?C ! l ! j)"
      by (rule dot_nth) (simp add: row [OF k] row [OF l])
    then show "U ! i ! k * (\<Sum>j<?D. ?C ! k ! j * ?C ! l ! j) =
               U ! i ! k * dot (?C ! k) (?C ! l)"
      by (simp add: row [OF k])
  qed
  also have "\<dots> = (\<Sum>k<?K. U ! i ! k * (if k = l then 1 else 0))"
    by (intro sum.cong refl) (simp add: retains_all_orthonormal [OF r _ l])
  also have "\<dots> = (\<Sum>k<?K. if k = l then U ! i ! k else 0)"
    by (intro sum.cong refl) simp
  also have "\<dots> = U ! i ! l"
    using l by (simp add: sum.delta')
  finally show ?thesis .
qed

lemma retains_all_row:
  assumes r: "retains_all p ps X U" and i: "i < length X"
    and x: "length (X ! i) = length (mean' ps)"
  shows "inverse_row p ps (transform_row p ps (X ! i)) = X ! i"
proof (rule nth_equalityI)
  show "length (inverse_row p ps (transform_row p ps (X ! i))) = length (X ! i)"
    by (simp add: inverse_row_length x)
next
  fix j assume "j < length (inverse_row p ps (transform_row p ps (X ! i)))"
  then have j: "j < length (mean' ps)" by (simp add: inverse_row_length)
  note sh = retains_all_shaped [OF r]
  have "inverse_row p ps (transform_row p ps (X ! i)) ! j =
          (\<Sum>k<length (components' ps).
             transform_row p ps (X ! i) ! k * (scale p ps k * components' ps ! k ! j)) +
          mean' ps ! j"
    by (rule inverse_row_nth [OF sh transform_row_length [OF sh] j])
  also have "(\<Sum>k<length (components' ps).
             transform_row p ps (X ! i) ! k * (scale p ps k * components' ps ! k ! j)) =
          (\<Sum>k<length (components' ps). U ! i ! k * components' ps ! k ! j)"
  proof (intro sum.cong refl)
    fix k assume "k \<in> {..<length (components' ps)}"
    then have k: "k < length (components' ps)" by simp
    have "transform_row p ps (X ! i) ! k = U ! i ! k / scale p ps k"
      by (simp add: transform_row_nth [OF sh k] retains_all_projection [OF r i x k])
    then show "transform_row p ps (X ! i) ! k * (scale p ps k * components' ps ! k ! j) =
               U ! i ! k * components' ps ! k ! j"
      using retains_all_scale [OF r k] by simp
  qed
  also have "\<dots> = X ! i ! j - mean' ps ! j"
    by (rule retains_all_coordinates(2) [OF r i j, symmetric])
  finally show "inverse_row p ps (transform_row p ps (X ! i)) ! j = X ! i ! j"
    by simp
qed

lemma euclidean_norm_self: "euclidean_norm (vec_sub x x) = 0"
proof -
  have "map (\<lambda>a. a\<^sup>2) (vec_sub x x) = map (\<lambda>a. 0) x"
    by (induction x) (simp_all add: vec_sub_def)
  then show ?thesis by (simp add: euclidean_norm_def)
qed

lemma retains_all_scores:
  assumes f: "fitted (pca d) = Some ps" and c: "check_array X = Inr X"
    and n: "length (hd X) = length (mean' ps)" and r: "retains_all (pca d) ps X U"
  shows "PCA_reconstruct d X = Inr X"
    and "PCA_anomaly_score d (Some X) = Inr (map (\<lambda>x. 0) X)"
proof -
  have row: "inverse_row (pca d) ps (transform_row (pca d) ps x) = x" if "x \<in> set X" for x
  proof -
    from that obtain i where i: "i < length X" and xi: "X ! i = x"
      by (auto simp: in_set_conv_nth)
    have "length (X ! i) = length (mean' ps)"
      using check_array_row [OF c i] n by simp
    from retains_all_row [OF r i this] xi show ?thesis by simp
  qed
  show "PCA_reconstruct d X = Inr X"
    using PCA_reconstruct_rows [OF f c n] row by (simp add: map_idI)
  show "PCA_anomaly_score d (Some X) = Inr (map (\<lambda>x. 0) X)"
    using PCA_anomaly_score_rows [OF f c n] row
    by (simp add: euclidean_norm_self cong: map_cong)
qed

text \<open>
  Claim C8. When a fit has succeeded and its decomposition retains all components, the
  reconstruction of the training matrix is the training matrix, and the anomaly score of
  every training sample is 0. In real arithmetic the round trip is exact; the claim's
  "approximately" is the rounding of the floating-point computation, which is outside
  this development.
\<close>

theorem PCA_full_reconstruction_exact:
  assumes "PCA_fit svd d0 X = (d, Inr ())" and "fitted (pca d) = Some ps"
    and "retains_all (pca d) ps X U"
  shows "PCA_reconstruct d X = Inr X \<and>
         PCA_anomaly_score d None = Inr (map (\<lambda>x. 0) X) \<and>
         PCA_anomaly_score d (Some X) = Inr (map (\<lambda>x. 0) X)"
proof -
  from PCA_fit_ok [OF assms(1)] obtain scores where
    c: "check_array X = Inr X" and stored: "X' d = Some X"
    and s: "PCA_anomaly_score d (Some X) = Inr scores"
    by auto
  have n: "length (hd X) = length (mean' ps)"
    by (rule PCA_scores_feature_count [OF s assms(2)])
  note z = retains_all_scores [OF assms(2) c n assms(3)]
  moreover have "PCA_anomaly_score d None = PCA_anomaly_score d (Some X)"
    by (rule PCA_anomaly_score_default [OF stored])
  ultimately show ?thesis by simp
qed

lemma retains_all_cross:
  "retains_all \<lparr>pca_n_components = None, whiten = True, fitted = Some (cross_params 2)\<rparr>
     (cross_params 2) X_cross X_cross"
  by (simp add: retains_all_def shaped_def cross_params_def X_cross_def dot_def)

lemma PCA_fit_cross_all:
  "PCA_fit svd_cross (pca_new (1 / 2) None True) X_cross =
     ((pca_cross (1 / 2) None True 2)\<lparr>pca_threshold' := Some 0\<rparr>, Inr ())"
proof -
  let ?d = "pca_cross (1 / 2) None True 2"
  have f: "fitted (pca ?d) = Some (cross_params 2)" by (simp add: pca_cross_def)
  have n: "length (hd X_cross) = length (mean' (cross_params 2))"
    by (simp add: X_cross_def cross_params_def)
  have r: "retains_all (pca ?d) (cross_params 2) X_cross X_cross"
    using retains_all_cross by (simp add: pca_cross_def pca_new_def)
  have "PCA_anomaly_score ?d (Some X_cross) = Inr (map (\<lambda>x. 0) X_cross)"
    by (rule retains_all_scores(2) [OF f check_array_cross n r])
  moreover have "X' ?d = Some X_cross" by (simp add: pca_cross_def)
  ultimately have s: "PCA_anomaly_score
             ((pca_new (1 / 2) None True)\<lparr>X' := Some X_cross,
                pca := (pca (pca_new (1 / 2) None True))\<lparr>fitted := Some (cross_params 2)\<rparr>\<rparr>)
             None = Inr [0, 0, 0, 0]"
    using PCA_anomaly_score_default [of ?d X_cross]
    by (simp add: pca_cross_def) (simp add: X_cross_def)
  have p: "np_percentile [0, 0, 0, 0] (100 * (1 - pca_fpr (pca_new (1 / 2) None True))) = Inr 0"
    by (simp add: np_percentile_def pca_new_def)
  show ?thesis
    using PCA_fit_I [where svd = svd_cross and d = "pca_new (1 / 2) None True",
                     OF check_array_cross svd_cross_all s p]
    by (simp add: pca_cross_def)
qed

theorem PCA_full_reconstruction_exact_witness:
  "PCA_fit svd_cross (pca_new (1 / 2) None True) X_cross =
     ((pca_cross (1 / 2) None True 2)\<lparr>pca_threshold' := Some 0\<rparr>, Inr ()) \<and>
   fitted (pca ((pca_cross (1 / 2) None True 2)\<lparr>pca_threshold' := Some 0\<rparr>)) =
     Some (cross_params 2) \<and>
   retains_all (pca ((pca_cross (1 / 2) None True 2)\<lparr>pca_threshold' := Some 0\<rparr>))
     (cross_params 2) X_cross X_cross \<and>
   PCA_reconstruct ((pca_cross (1 / 2) None True 2)\<lparr>pca_threshold' := Some 0\<rparr>) X_cross =
     Inr X_cross \<and>
   PCA_anomaly_score ((pca_cross (1 / 2) None True 2)\<lparr>pca_threshold' := Some 0\<rparr>) None =
     Inr [0, 0, 0, 0]"
proof -
  let ?d = "(pca_cross (1 / 2) None True 2)\<lparr>pca_threshold' := Some 0\<rparr>"
  have f: "fitted (pca ?d) = Some (cross_params 2)" by (simp add: pca_cross_def)
  have r: "retains_all (pca ?d) (cross_params 2) X_cross X_cross"
    using retains_all_cross by (simp add: pca_cross_def pca_new_def)
  from PCA_full_reconstruction_exact [OF PCA_fit_cross_all f r]
  have "PCA_reconstruct ?d X_cross = Inr X_cross"
    and "PCA_anomaly_score ?d None = Inr (map (\<lambda>x. 0) X_cross)"
    by simp_all
  then have "PCA_reconstruct ?d X_cross = Inr X_cross \<and>
             PCA_anomaly_score ?d None = Inr [0, 0, 0, 0]"
    by (simp add: X_cross_def)
  with PCA_fit_cross_all f r show ?thesis by blast
qed

end
